theory Spec2Isabelle
  imports Complex_Main
begin

section \<open>Conversation state machine (core/conversation.py)\<close>

text \<open>
  The classes \<open>ConversationEngine.State\<close> and \<open>ConversationEngine.Intent\<close> hold
  plain string constants; a state or an intent is a Python \<open>str\<close>. The constants are
  abbreviations here, so that a state read from a customer record (any string) and a
  state of the table have the same type.
\<close>

abbreviation State_INITIAL :: string where "State_INITIAL \<equiv> ''initial''"
abbreviation State_INTRODUCTION :: string where "State_INTRODUCTION \<equiv> ''introduction''"
abbreviation State_QUALIFYING :: string where "State_QUALIFYING \<equiv> ''qualifying''"
abbreviation State_PROPERTY_DETAILS :: string where "State_PROPERTY_DETAILS \<equiv> ''property_details''"
abbreviation State_LOAN_DETAILS :: string where "State_LOAN_DETAILS \<equiv> ''loan_details''"
abbreviation State_OBJECTION_HANDLING :: string where "State_OBJECTION_HANDLING \<equiv> ''objection_handling''"
abbreviation State_CLOSING :: string where "State_CLOSING \<equiv> ''closing''"
abbreviation State_FOLLOW_UP_SCHEDULING :: string where "State_FOLLOW_UP_SCHEDULING \<equiv> ''follow_up_scheduling''"
abbreviation State_COMPLETED :: string where "State_COMPLETED \<equiv> ''completed''"
abbreviation State_NOT_INTERESTED :: string where "State_NOT_INTERESTED \<equiv> ''not_interested''"

abbreviation Intent_INTERESTED :: string where "Intent_INTERESTED \<equiv> ''interested''"
abbreviation Intent_NEEDS_MORE_INFO :: string where "Intent_NEEDS_MORE_INFO \<equiv> ''needs_more_info''"
abbreviation Intent_OBJECTION :: string where "Intent_OBJECTION \<equiv> ''objection''"
abbreviation Intent_NOT_INTERESTED :: string where "Intent_NOT_INTERESTED \<equiv> ''not_interested''"
abbreviation Intent_ASKING_QUESTION :: string where "Intent_ASKING_QUESTION \<equiv> ''asking_question''"
abbreviation Intent_FOLLOW_UP_LATER :: string where "Intent_FOLLOW_UP_LATER \<equiv> ''follow_up_later''"

text \<open>
  \<open>self.state_transitions\<close>, the dict of dicts built in \<open>__init__\<close>, entry for entry
  and in the order of the source. A Python dict literal is an association list with
  distinct keys; \<open>map_of\<close> is its lookup.
\<close>

definition state_transitions :: "(string \<times> (string \<times> string) list) list" where
  "state_transitions =
   [(State_INITIAL,
       [(Intent_INTERESTED, State_INTRODUCTION),
        (Intent_NEEDS_MORE_INFO, State_INTRODUCTION),
        (Intent_NOT_INTERESTED, State_NOT_INTERESTED),
        (Intent_ASKING_QUESTION, State_INTRODUCTION)]),
    (State_INTRODUCTION,
       [(Intent_INTERESTED, State_QUALIFYING),
        (Intent_NEEDS_MORE_INFO, State_QUALIFYING),
        (Intent_OBJECTION, State_OBJECTION_HANDLING),
        (Intent_NOT_INTERESTED, State_NOT_INTERESTED),
        (Intent_ASKING_QUESTION, State_QUALIFYING)]),
    (State_QUALIFYING,
       [(Intent_INTERESTED, State_PROPERTY_DETAILS),
        (Intent_NEEDS_MORE_INFO, State_QUALIFYING),
        (Intent_OBJECTION, State_OBJECTION_HANDLING),
        (Intent_NOT_INTERESTED, State_NOT_INTERESTED),
        (Intent_ASKING_QUESTION, State_QUALIFYING),
        (Intent_FOLLOW_UP_LATER, State_FOLLOW_UP_SCHEDULING)]),
    (State_PROPERTY_DETAILS,
       [(Intent_INTERESTED, State_LOAN_DETAILS),
        (Intent_NEEDS_MORE_INFO, State_PROPERTY_DETAILS),
        (Intent_OBJECTION, State_OBJECTION_HANDLING),
        (Intent_NOT_INTERESTED, State_NOT_INTERESTED),
        (Intent_ASKING_QUESTION, State_PROPERTY_DETAILS),
        (Intent_FOLLOW_UP_LATER, State_FOLLOW_UP_SCHEDULING)]),
    (State_LOAN_DETAILS,
       [(Intent_INTERESTED, State_CLOSING),
        (Intent_NEEDS_MORE_INFO, State_LOAN_DETAILS),
        (Intent_OBJECTION, State_OBJECTION_HANDLING),
        (Intent_NOT_INTERESTED, State_NOT_INTERESTED),
        (Intent_ASKING_QUESTION, State_LOAN_DETAILS),
        (Intent_FOLLOW_UP_LATER, State_FOLLOW_UP_SCHEDULING)]),
    (State_OBJECTION_HANDLING,
       [(Intent_INTERESTED, State_LOAN_DETAILS),
        (Intent_NEEDS_MORE_INFO, State_LOAN_DETAILS),
        (Intent_OBJECTION, State_OBJECTION_HANDLING),
        (Intent_NOT_INTERESTED, State_NOT_INTERESTED),
        (Intent_ASKING_QUESTION, State_LOAN_DETAILS),
        (Intent_FOLLOW_UP_LATER, State_FOLLOW_UP_SCHEDULING)]),
    (State_CLOSING,
       [(Intent_INTERESTED, State_COMPLETED),
        (Intent_NEEDS_MORE_INFO, State_LOAN_DETAILS),
        (Intent_OBJECTION, State_OBJECTION_HANDLING),
        (Intent_NOT_INTERESTED, State_NOT_INTERESTED),
        (Intent_ASKING_QUESTION, State_LOAN_DETAILS),
        (Intent_FOLLOW_UP_LATER, State_FOLLOW_UP_SCHEDULING)]),
    (State_FOLLOW_UP_SCHEDULING,
       [(Intent_INTERESTED, State_LOAN_DETAILS),
        (Intent_NEEDS_MORE_INFO, State_LOAN_DETAILS),
        (Intent_NOT_INTERESTED, State_NOT_INTERESTED)]),
    (State_COMPLETED, []),
    (State_NOT_INTERESTED,
       [(Intent_INTERESTED, State_INTRODUCTION)])]"

text \<open>
  The entry of the table for a pair (state, intent): \<open>None\<close> when the state has no row
  or the row has no such intent.
\<close>

definition table_entry :: "string \<Rightarrow> string \<Rightarrow> string option" where
  "table_entry st intent =
     (case map_of state_transitions st of
        None \<Rightarrow> None
      | Some row \<Rightarrow> map_of row intent)"

text \<open>
  \<open>_update_state\<close>: \<open>transitions = self.state_transitions.get(current_state, {})\<close>,
  then \<open>transitions[intent]\<close> if \<open>intent in transitions\<close>, else \<open>current_state\<close>.
\<close>

definition update_state :: "string \<Rightarrow> string \<Rightarrow> string" where
  "update_state current_state intent =
     (let transitions =
            (case map_of state_transitions current_state of
               None \<Rightarrow> []
             | Some row \<Rightarrow> row)
      in case map_of transitions intent of
           Some next_state \<Rightarrow> next_state
         | None \<Rightarrow> current_state)"

section \<open>Values and exceptions\<close>

text \<open>
  The values that travel through JSON fields, extracted-information dicts and responses:
  \<open>None\<close>, booleans, integers, floats, strings, lists and dicts with string keys.
  Floats are modelled by the reals: the decimal constants of the source are exact and
  no rounding is modelled.
\<close>

datatype pyval =
    PNone
  | PBool bool
  | PInt int
  | PFloat real
  | PStr string
  | PList "pyval list"
  | PDict "(string \<times> pyval) list"

text \<open>Python's truth value of an object, as \<open>if x:\<close> and \<open>a and b\<close> test it.\<close>

fun truthy :: "pyval \<Rightarrow> bool" where
  "truthy PNone = False"
| "truthy (PBool b) = b"
| "truthy (PInt n) = (n \<noteq> 0)"
| "truthy (PFloat x) = (x \<noteq> 0)"
| "truthy (PStr s) = (s \<noteq> [])"
| "truthy (PList xs) = (xs \<noteq> [])"
| "truthy (PDict d) = (d \<noteq> [])"

text \<open>Exceptions, each with the text that \<open>str(e)\<close> gives.\<close>

datatype py_exception =
    RequestException string
  | AttributeError string
  | IndexError string
  | JSONDecodeError string
  | OtherException string

fun exc_str :: "py_exception \<Rightarrow> string" where
  "exc_str (RequestException m) = m"
| "exc_str (AttributeError m) = m"
| "exc_str (IndexError m) = m"
| "exc_str (JSONDecodeError m) = m"
| "exc_str (OtherException m) = m"

section \<open>Profile merge (agent/views.py)\<close>

text \<open>
  The fields of the \<open>Customer\<close> model that \<open>update_customer_profile\<close> reads or
  writes, and the key it is looked up by. \<open>name\<close> is nullable (\<open>PNone\<close> when unset);
  the two JSON fields default to an empty dict.
\<close>

record customer =
  phone_number :: string
  name :: pyval
  property_details :: "string \<rightharpoonup> pyval"
  loan_requirements :: "string \<rightharpoonup> pyval"
  conversation_state :: string
  interest_level :: real
  do_not_contact :: bool

definition property_keys :: "string list" where
  "property_keys = [''property_type'', ''property_location'', ''property_value'', ''ownership_status'']"

definition loan_keys :: "string list" where
  "loan_keys = [''loan_amount_needed'', ''loan_purpose'', ''current_loans'', ''monthly_income'', ''urgency'']"

text \<open>
  What one \<open>concerns\<close> value adds to the stored list: \<open>extend(value)\<close> for a list,
  \<open>append(value)\<close> for anything else.
\<close>

fun concern_values :: "pyval \<Rightarrow> pyval list" where
  "concern_values (PList vs) = vs"
| "concern_values v = [v]"

text \<open>
  One round of the loop \<open>for key, value in extracted_info.items()\<close>. The locals
  \<open>property_details\<close> and \<open>loan_requirements\<close> are the customer's dicts
  (\<open>customer.property_details or {}\<close> is the dict itself, or a fresh empty dict for an
  empty one) and are stored back right after the loop, so the round is written on the
  record. \<open>.extend\<close> and \<open>.append\<close> exist on lists only: on any other stored value
  of \<open>concerns\<close> the attribute lookup raises.
\<close>

definition merge_item :: "customer \<Rightarrow> string \<times> pyval \<Rightarrow> py_exception + customer" where
  "merge_item c kv =
     (let key = fst kv; val = snd kv in
      if key \<in> set property_keys then
        Inr (c\<lparr>property_details := (property_details c)(key \<mapsto> val)\<rparr>)
      else if key \<in> set loan_keys then
        Inr (c\<lparr>loan_requirements := (loan_requirements c)(key \<mapsto> val)\<rparr>)
      else if key = ''name'' \<and> name c = PNone then
        Inr (c\<lparr>name := val\<rparr>)
      else if key = ''concerns'' then
        (let lr = (if loan_requirements c ''concerns'' = None
                   then (loan_requirements c)(''concerns'' \<mapsto> PList [])
                   else loan_requirements c)
         in case lr ''concerns'' of
              Some (PList old) \<Rightarrow>
                Inr (c\<lparr>loan_requirements := lr(''concerns'' \<mapsto> PList (old @ concern_values val))\<rparr>)
            | _ \<Rightarrow> Inl (AttributeError ''object has no attribute extend or append''))
      else Inr c)"

fun merge_items :: "customer \<Rightarrow> (string \<times> pyval) list \<Rightarrow> py_exception + customer" where
  "merge_items c [] = Inr c"
| "merge_items c (kv # rest) =
     (case merge_item c kv of
        Inl e \<Rightarrow> Inl e
      | Inr c' \<Rightarrow> merge_items c' rest)"

text \<open>
  The value that the chain \<open>if intent == "interested": ... elif intent == "needs_more_info":
  ... elif intent == "objection": ... elif intent == "not_interested": ...\<close> assigns to
  \<open>customer.interest_level\<close>; with any other intent nothing is assigned.
\<close>

definition interest_level_after :: "string \<Rightarrow> real \<Rightarrow> real" where
  "interest_level_after intent level =
     (if intent = ''interested'' then min 1.0 (level + 0.2)
      else if intent = ''needs_more_info'' then min 0.8 (level + 0.1)
      else if intent = ''objection'' then max 0.1 (level - 0.1)
      else if intent = ''not_interested'' then max 0.0 (level - 0.3)
      else level)"

text \<open>
  \<open>update_customer_profile(customer, extracted_info, intent, state)\<close>. The dict
  \<open>extracted_info\<close> is the list of its items in iteration order. The function returns
  nothing; the model returns the record that \<open>customer.save()\<close> stores, or the
  exception that leaves the function.
\<close>

definition update_customer_profile ::
  "customer \<Rightarrow> (string \<times> pyval) list \<Rightarrow> string \<Rightarrow> string \<Rightarrow> py_exception + customer" where
  "update_customer_profile cust extracted_info intent st =
     (case merge_items cust extracted_info of
        Inl e \<Rightarrow> Inl e
      | Inr c1 \<Rightarrow>
          (let c2 = c1\<lparr>conversation_state := st\<rparr>;
               c3 = c2\<lparr>interest_level := interest_level_after intent (interest_level c2)\<rparr>;
               c4 = (case map_of extracted_info ''do_not_contact'' of
                       Some v \<Rightarrow> (if truthy v then c3\<lparr>do_not_contact := True\<rparr> else c3)
                     | None \<Rightarrow> c3)
           in Inr c4))"

text \<open>
  Two readings of the data used to state properties of the merge: the stored list of
  concerns (\<open>[]\<close> when the key is absent, \<open>None\<close> when the stored value is not a list),
  and the values that the \<open>concerns\<close> entries of an extracted-information dict add.
\<close>

definition concerns_list :: "customer \<Rightarrow> pyval list option" where
  "concerns_list c =
     (case loan_requirements c ''concerns'' of
        None \<Rightarrow> Some []
      | Some (PList old) \<Rightarrow> Some old
      | Some _ \<Rightarrow> None)"

definition concerns_added :: "(string \<times> pyval) list \<Rightarrow> pyval list" where
  "concerns_added extracted_info =
     concat (map (\<lambda>kv. concern_values (snd kv))
                 (filter (\<lambda>kv. fst kv = ''concerns'') extracted_info))"

definition example_customer :: customer where
  "example_customer =
     \<lparr>phone_number = ''918123456789'', name = PNone, property_details = Map.empty,
      loan_requirements = Map.empty, conversation_state = State_INITIAL,
      interest_level = 0, do_not_contact = False\<rparr>"

section \<open>Strings\<close>

text \<open>
  A Python \<open>str\<close> is a list of characters, here the code points below 256.
  \<open>str.strip\<close> removes the white space characters of \<open>str.isspace\<close> among them
  (the ASCII ones, U+0085 and U+00A0); the regular expression class \<open>\d\<close> is the
  digits \<open>0\<close> to \<open>9\<close>; \<open>str.lower\<close> is modelled on the ASCII letters \<open>A\<close> to
  \<open>Z\<close>.
\<close>

definition lower_char :: "char \<Rightarrow> char" where
  "lower_char c =
     (case map_of (zip ''ABCDEFGHIJKLMNOPQRSTUVWXYZ'' ''abcdefghijklmnopqrstuvwxyz'') c of
        Some l \<Rightarrow> l
      | None \<Rightarrow> c)"

definition str_lower :: "string \<Rightarrow> string" where
  "str_lower s = map lower_char s"

definition is_space :: "char \<Rightarrow> bool" where
  "is_space c =
     (c \<in> set [CHR '' '', CHR 0x09, CHR 0x0A, CHR 0x0B, CHR 0x0C, CHR 0x0D,
                CHR 0x1C, CHR 0x1D, CHR 0x1E, CHR 0x1F, CHR 0x85, CHR 0xA0])"

definition str_strip :: "string \<Rightarrow> string" where
  "str_strip s = rev (dropWhile is_space (rev (dropWhile is_space s)))"

fun starts_with :: "string \<Rightarrow> string \<Rightarrow> bool" where
  "starts_with s [] = True"
| "starts_with [] (p # ps) = False"
| "starts_with (c # cs) (p # ps) = (c = p \<and> starts_with cs ps)"

text \<open>\<open>str_contains sub s\<close> is Python's \<open>sub in s\<close>.\<close>

fun str_contains :: "string \<Rightarrow> string \<Rightarrow> bool" where
  "str_contains sub [] = (sub = [])"
| "str_contains sub (c # cs) = (starts_with (c # cs) sub \<or> str_contains sub cs)"

section \<open>Currency normalizer (core/conversation.py)\<close>

definition is_digit :: "char \<Rightarrow> bool" where
  "is_digit c = (c \<in> set ''0123456789'')"

definition digit_value :: "char \<Rightarrow> nat" where
  "digit_value c =
     (case map_of (zip ''0123456789'' [0, 1, 2, 3, 4, 5, 6, 7, 8, 9]) c of
        Some d \<Rightarrow> d
      | None \<Rightarrow> 0)"

definition digits_value :: "string \<Rightarrow> nat" where
  "digits_value ds = foldl (\<lambda>n c. 10 * n + digit_value c) 0 ds"

text \<open>
  \<open>re.search(r'(\d+\.?\d*)', value_str)\<close>: the leftmost match starts at the first digit;
  \<open>\d+\<close> takes the whole run of digits, \<open>\.?\<close> a point that follows it, \<open>\d*\<close> the
  digits after the point. The result is the pair of the digits before and after the
  point (group 1 without its point), or \<open>None\<close> when the string has no digit.
\<close>

definition numeric_match :: "string \<Rightarrow> (string \<times> string) option" where
  "numeric_match s =
     (let from_digit = dropWhile (\<lambda>c. \<not> is_digit c) s in
      if from_digit = [] then None
      else
        (let int_part = takeWhile is_digit from_digit;
             after = dropWhile is_digit from_digit
         in case after of
              c # rest \<Rightarrow>
                (if c = CHR ''.'' then Some (int_part, takeWhile is_digit rest)
                 else Some (int_part, []))
            | [] \<Rightarrow> Some (int_part, [])))"

text \<open>\<open>float(numeric_match.group(1))\<close> for the matched digits, as a real number.\<close>

definition float_of_match :: "string \<times> string \<Rightarrow> real" where
  "float_of_match m =
     real (digits_value (fst m)) + real (digits_value (snd m)) / 10 ^ length (snd m)"

text \<open>
  \<open>_convert_indian_currency_to_number\<close>. A value that is not a string is returned as it
  is; a string without a digit gives the integer 0; otherwise the result is a float.
\<close>

fun convert_indian_currency_to_number :: "pyval \<Rightarrow> pyval" where
  "convert_indian_currency_to_number (PStr value_str) =
     (let value_str = str_strip (str_lower value_str) in
      case numeric_match value_str of
        None \<Rightarrow> PInt 0
      | Some m \<Rightarrow>
          (let numeric_value = float_of_match m in
           if str_contains ''lakh'' value_str \<or> str_contains ''lac'' value_str then
             PFloat (numeric_value * 100000)
           else if str_contains ''crore'' value_str \<or> str_contains ''cr'' value_str then
             PFloat (numeric_value * 10000000)
           else if str_contains ''k'' value_str \<or> str_contains ''thousand'' value_str then
             PFloat (numeric_value * 1000)
           else PFloat numeric_value))"
| "convert_indian_currency_to_number v = v"

text \<open>
  The multiplier as the specification words it: "lakh"/"lac" gives 100,000,
  "crore"/"cr" gives 10,000,000, "k"/"thousand" gives 1,000, anything else 1, the
  earlier line winning where several words occur.
\<close>

definition spec_multiplier :: "string \<Rightarrow> real" where
  "spec_multiplier t =
     (if str_contains ''lakh'' t \<or> str_contains ''lac'' t then 100000
      else if str_contains ''crore'' t \<or> str_contains ''cr'' t then 10000000
      else if str_contains ''k'' t \<or> str_contains ''thousand'' t then 1000
      else 1)"

section \<open>Conversation engine (core/conversation.py)\<close>

text \<open>
  A call of \<open>self.openai_client.chat.completions.create\<close> either raises or returns a
  completion, of which the code reads \<open>choices[0].message.content\<close> (which may be
  \<open>None\<close>) and \<open>choices[0].finish_reason\<close>. The remote model is not part of the
  program: the outcome of each call is an argument of the function that makes it, and
  the prompt, which only travels to the remote model, is not built.
\<close>

record choice =
  content :: "string option"
  finish_reason :: string

type_synonym llm_outcome = "py_exception + choice list"

text \<open>
  \<open>response.choices[0].message.content.strip()\<close>, with the two exceptions it can
  raise inside the \<open>try\<close> blocks.
\<close>

definition first_content_stripped :: "choice list \<Rightarrow> py_exception + string" where
  "first_content_stripped choices =
     (case choices of
        [] \<Rightarrow> Inl (IndexError ''list index out of range'')
      | ch # _ \<Rightarrow>
          (case content ch of
             None \<Rightarrow>
               Inl (AttributeError
                      ([CHR 0x27] @ ''NoneType'' @ [CHR 0x27] @ '' object has no attribute '' @
                       [CHR 0x27] @ ''strip'' @ [CHR 0x27]))
           | Some txt \<Rightarrow> Inr (str_strip txt)))"

definition all_intents :: "string list" where
  "all_intents =
     [Intent_INTERESTED, Intent_NEEDS_MORE_INFO, Intent_OBJECTION, Intent_NOT_INTERESTED,
      Intent_ASKING_QUESTION, Intent_FOLLOW_UP_LATER]"

text \<open>The chain \<open>if intent in [...] ... elif ... else\<close> of \<open>detect_intent\<close>.\<close>

definition normalize_intent :: "string \<Rightarrow> string" where
  "normalize_intent intent =
     (if intent \<in> set all_intents then intent
      else if str_contains ''interest'' intent then Intent_INTERESTED
      else if str_contains ''more info'' intent \<or> str_contains ''information'' intent then
        Intent_NEEDS_MORE_INFO
      else if str_contains ''object'' intent \<or> str_contains ''concern'' intent then
        Intent_OBJECTION
      else if str_contains ''not'' intent \<and>
              (str_contains ''interest'' intent \<or> str_contains ''want'' intent) then
        Intent_NOT_INTERESTED
      else if str_contains ''question'' intent \<or> str_contains ''ask'' intent then
        Intent_ASKING_QUESTION
      else if str_contains ''follow'' intent \<or> str_contains ''later'' intent then
        Intent_FOLLOW_UP_LATER
      else Intent_NEEDS_MORE_INFO)"

text \<open>An entry of the conversation history, as \<open>get_conversation_history\<close> builds it.\<close>

record exchange =
  direction :: string
  exchange_content :: string

text \<open>
  \<open>detect_intent\<close>. Everything after the prompt is built sits in one \<open>try\<close> whose
  handler \<open>except Exception\<close> returns \<open>(needs_more_info, 0.5)\<close>: it catches the
  exception of the call, the \<open>IndexError\<close> of \<open>choices[0]\<close> on an empty list and the
  \<open>AttributeError\<close> of \<open>.strip()\<close> on a content of \<open>None\<close>.
\<close>

definition detect_intent :: "string \<Rightarrow> exchange list \<Rightarrow> llm_outcome \<Rightarrow> string \<times> real" where
  "detect_intent message conversation_history call =
     (case call of
        Inl e \<Rightarrow> (Intent_NEEDS_MORE_INFO, 0.5)
      | Inr [] \<Rightarrow> (Intent_NEEDS_MORE_INFO, 0.5)
      | Inr (ch # _) \<Rightarrow>
          (case content ch of
             None \<Rightarrow> (Intent_NEEDS_MORE_INFO, 0.5)
           | Some txt \<Rightarrow>
               (let intent = str_lower (str_strip txt);
                    normalized_intent = normalize_intent intent;
                    confidence = (if finish_reason ch = ''stop'' then 0.7 + 0.1 else 0.7)
                in (normalized_intent, confidence))))"

text \<open>
  \<open>extract_information\<close>. \<open>json.loads\<close> is a library function and an argument here.
  A decoding error gives the empty dict through the inner handler; any other exception
  (the call itself, a missing choice, a content of \<open>None\<close>, a JSON value without
  \<open>.items()\<close>) gives it through the outer one. The keys of a decoded object are
  distinct, so the assignments \<open>cleaned_info[key] = value\<close> append.
\<close>

definition skip_value :: "pyval \<Rightarrow> bool" where
  "skip_value v = (v = PNone \<or> v = PStr [] \<or> v = PList [])"

definition clean_value :: "string \<Rightarrow> pyval \<Rightarrow> pyval" where
  "clean_value key v =
     (if key = ''property_value'' \<or> key = ''loan_amount_needed'' then
        (case v of PStr _ \<Rightarrow> convert_indian_currency_to_number v | _ \<Rightarrow> v)
      else v)"

definition extract_information ::
  "(string \<Rightarrow> py_exception + pyval) \<Rightarrow> string \<Rightarrow> llm_outcome \<Rightarrow> (string \<times> pyval) list" where
  "extract_information json_loads message call =
     (case call of
        Inl e \<Rightarrow> []
      | Inr choices \<Rightarrow>
          (case first_content_stripped choices of
             Inl e \<Rightarrow> []
           | Inr extracted_info_text \<Rightarrow>
               (case json_loads extracted_info_text of
                  Inl e \<Rightarrow> []
                | Inr (PDict items) \<Rightarrow>
                    map (\<lambda>kv. (fst kv, clean_value (fst kv) (snd kv)))
                        (filter (\<lambda>kv. \<not> skip_value (snd kv)) items)
                | Inr _ \<Rightarrow> [])))"

text \<open>\<open>_calculate_follow_up_date\<close>: the interval string, or \<open>None\<close>.\<close>

definition calculate_follow_up_date :: "string \<Rightarrow> string \<Rightarrow> string option" where
  "calculate_follow_up_date intent st =
     (if intent = Intent_FOLLOW_UP_LATER then Some ''7d''
      else if st = State_FOLLOW_UP_SCHEDULING then Some ''14d''
      else if st = State_NOT_INTERESTED then Some ''90d''
      else if st = State_OBJECTION_HANDLING then Some ''21d''
      else if st = State_LOAN_DETAILS \<and> intent \<noteq> Intent_INTERESTED then Some ''30d''
      else None)"

text \<open>\<open>_should_generate_audio\<close>.\<close>

definition should_generate_audio :: "string \<Rightarrow> string \<Rightarrow> bool" where
  "should_generate_audio response_text st =
     (if length response_text > 300 then True
      else if st \<in> set [State_OBJECTION_HANDLING, State_CLOSING, State_NOT_INTERESTED] then True
      else if st \<in> set [State_LOAN_DETAILS] \<and>
              list_ex (\<lambda>term. str_contains term (str_lower response_text))
                [''interest rate'', ''emi'', ''tenure'', ''processing fee''] then True
      else False)"

definition apology_text :: string where
  "apology_text =
     ''I apologize, but I'' @ [CHR 0x27] @ ''m having trouble processing your request at the moment. '' @
     ''Could you please try again or contact our customer service for assistance?''"

text \<open>
  \<open>generate_response\<close>. The customer profile is the dict that the message handlers
  build; of it the function reads the entry \<open>conversation_state\<close> (a state name, with
  the default \<open>initial\<close> when the key is absent), the rest goes into the prompt only.
  The three calls of the remote model are made in the order intent, extraction, reply.
  The result is the dict that the function returns, as the list of its items.
\<close>

record customer_profile =
  profile_conversation_state :: "string option"

definition optional_str :: "string option \<Rightarrow> pyval" where
  "optional_str x = (case x of None \<Rightarrow> PNone | Some s \<Rightarrow> PStr s)"

definition generate_response ::
  "(string \<Rightarrow> py_exception + pyval) \<Rightarrow> string \<Rightarrow> customer_profile \<Rightarrow> exchange list \<Rightarrow>
   llm_outcome \<Rightarrow> llm_outcome \<Rightarrow> llm_outcome \<Rightarrow> (string \<times> pyval) list" where
  "generate_response json_loads message profile conversation_history
       intent_call extraction_call reply_call =
     (let current_state =
            (case profile_conversation_state profile of
               None \<Rightarrow> State_INITIAL
             | Some s \<Rightarrow> s);
          detected = detect_intent message conversation_history intent_call;
          intent = fst detected;
          confidence = snd detected;
          extracted_info = extract_information json_loads message extraction_call;
          new_state = update_state current_state intent;
          reply = (case reply_call of
                     Inl e \<Rightarrow> Inl e
                   | Inr choices \<Rightarrow> first_content_stripped choices)
      in case reply of
           Inr response_text \<Rightarrow>
             (let follow_up_date = calculate_follow_up_date intent new_state;
                  audio = should_generate_audio response_text new_state
              in [(''text'', PStr response_text),
                  (''state'', PStr new_state),
                  (''previous_state'', PStr current_state),
                  (''intent'', PStr intent),
                  (''confidence'', PFloat confidence),
                  (''extracted_info'', PDict extracted_info),
                  (''should_generate_audio'', PBool audio),
                  (''follow_up_date'', optional_str follow_up_date),
                  (''analysis'',
                     PDict [(''message_length'', PInt (int (length message))),
                            (''response_length'', PInt (int (length response_text))),
                            (''state_changed'', PBool (new_state \<noteq> current_state))])])
         | Inl e \<Rightarrow>
             [(''text'', PStr apology_text),
              (''state'', PStr current_state),
              (''previous_state'', PStr current_state),
              (''intent'', PStr intent),
              (''confidence'', PFloat 0.5),
              (''extracted_info'', PDict []),
              (''should_generate_audio'', PBool False),
              (''follow_up_date'', PNone),
              (''analysis'',
                 PDict [(''error'', PStr (exc_str e)),
                        (''fallback'', PBool True)])])"


section \<open>WhatsApp client (core/whatsapp.py)\<close>

text \<open>
  The fields of \<open>WhatsAppClient\<close> that the send functions read and write. Two more
  fields make the effects explicit: \<open>posted\<close> is the list of the JSON payloads handed
  to \<open>requests.post\<close>, oldest first, and \<open>attempt\<close> counts the tries made so far; it
  selects what the clock and the HTTP endpoint answer.
\<close>

record whatsapp_client =
  message_counts :: "string \<rightharpoonup> nat"
  rate_limit :: nat
  conversation_windows :: "string \<rightharpoonup> real"
  window_duration :: real
  posted :: "pyval list"
  attempt :: nat

text \<open>
  What the outside answers during one try: \<open>time.time()\<close>,
  \<open>time.strftime("%Y-%m-%d")\<close>, and for a payload the outcome of \<open>requests.post\<close>,
  \<open>raise_for_status\<close> and \<open>response.json()\<close> together. An environment gives one
  such answer for every try.
\<close>

record outside =
  now :: real
  today :: string
  http_post :: "pyval \<Rightarrow> py_exception + pyval"

type_synonym environment = "nat \<Rightarrow> outside"

definition count_key :: "string \<Rightarrow> outside \<Rightarrow> string" where
  "count_key recipient_phone out = recipient_phone @ '':'' @ today out"

definition check_rate_limit :: "whatsapp_client \<Rightarrow> outside \<Rightarrow> string \<Rightarrow> bool" where
  "check_rate_limit c out recipient_phone =
     (let count = (case message_counts c (count_key recipient_phone out) of
                     None \<Rightarrow> 0
                   | Some n \<Rightarrow> n)
      in count < rate_limit c)"

definition update_message_count :: "whatsapp_client \<Rightarrow> outside \<Rightarrow> string \<Rightarrow> whatsapp_client" where
  "update_message_count c out recipient_phone =
     c\<lparr>message_counts :=
         (message_counts c)(count_key recipient_phone out \<mapsto>
            (case message_counts c (count_key recipient_phone out) of
               None \<Rightarrow> 0
             | Some n \<Rightarrow> n) + 1)\<rparr>"

definition check_conversation_window :: "whatsapp_client \<Rightarrow> outside \<Rightarrow> string \<Rightarrow> bool" where
  "check_conversation_window c out recipient_phone =
     (let window_start = (case conversation_windows c recipient_phone of
                            None \<Rightarrow> 0
                          | Some t \<Rightarrow> t)
      in now out - window_start < window_duration c)"

definition update_conversation_window ::
  "whatsapp_client \<Rightarrow> outside \<Rightarrow> string \<Rightarrow> whatsapp_client" where
  "update_conversation_window c out recipient_phone =
     c\<lparr>conversation_windows := (conversation_windows c)(recipient_phone \<mapsto> now out)\<rparr>"

text \<open>The payloads of \<open>send_text\<close> and \<open>send_template\<close>.\<close>

definition text_payload :: "string \<Rightarrow> string \<Rightarrow> pyval" where
  "text_payload recipient_phone body =
     PDict [(''messaging_product'', PStr ''whatsapp''),
            (''recipient_type'', PStr ''individual''),
            (''to'', PStr recipient_phone),
            (''type'', PStr ''text''),
            (''text'', PDict [(''preview_url'', PBool False), (''body'', PStr body)])]"

definition template_components :: "(string \<times> pyval) list \<Rightarrow> pyval list" where
  "template_components template_params =
     (let parameter_list =
            map (\<lambda>kv. PDict [(''type'', PStr ''text''), (''text'', snd kv)]) template_params
      in if template_params \<noteq> [] \<and> parameter_list \<noteq> []
         then [PDict [(''type'', PStr ''body''), (''parameters'', PList parameter_list)]]
         else [])"

definition template_payload :: "string \<Rightarrow> string \<Rightarrow> (string \<times> pyval) list \<Rightarrow> pyval" where
  "template_payload recipient_phone template_name template_params =
     PDict [(''messaging_product'', PStr ''whatsapp''),
            (''recipient_type'', PStr ''individual''),
            (''to'', PStr recipient_phone),
            (''type'', PStr ''template''),
            (''template'',
               PDict [(''name'', PStr template_name),
                      (''language'', PDict [(''code'', PStr ''en'')]),
                      (''components'', PList (template_components template_params))])]"

text \<open>
  The \<open>try\<close> block that ends \<open>send_text\<close> and \<open>send_template\<close> alike: post the
  payload; on success count the message, restart the conversation window and return the
  decoded answer; on an exception log it and raise it again.
\<close>

definition post_message ::
  "outside \<Rightarrow> whatsapp_client \<Rightarrow> string \<Rightarrow> pyval \<Rightarrow> (py_exception + pyval) \<times> whatsapp_client" where
  "post_message out c recipient_phone payload =
     (let c1 = c\<lparr>posted := posted c @ [payload]\<rparr> in
      case http_post out payload of
        Inr result \<Rightarrow>
          (Inr result,
           update_conversation_window (update_message_count c1 out recipient_phone)
             out recipient_phone)
      | Inl ex \<Rightarrow> (Inl ex, c1))"

text \<open>
  The decorator \<open>@backoff.on_exception(backoff.expo, RequestException, max_tries=5)\<close>:
  a call that raises a \<open>RequestException\<close> is made again after a pause, five times at
  most; the exception of the last try, and any other exception, leaves the function.
\<close>

fun is_request_exception :: "py_exception \<Rightarrow> bool" where
  "is_request_exception (RequestException m) = True"
| "is_request_exception e = False"

fun retry ::
  "nat \<Rightarrow> (whatsapp_client \<Rightarrow> (py_exception + pyval) \<times> whatsapp_client) \<Rightarrow>
   whatsapp_client \<Rightarrow> (py_exception + pyval) \<times> whatsapp_client" where
  "retry 0 f c = f c"
| "retry (Suc n) f c =
     (let r = f c in
      case fst r of
        Inl ex \<Rightarrow>
          (if is_request_exception ex
           then retry n f ((snd r)\<lparr>attempt := Suc (attempt (snd r))\<rparr>)
           else r)
      | Inr result \<Rightarrow> r)"

definition on_exception ::
  "nat \<Rightarrow> (whatsapp_client \<Rightarrow> (py_exception + pyval) \<times> whatsapp_client) \<Rightarrow>
   whatsapp_client \<Rightarrow> (py_exception + pyval) \<times> whatsapp_client" where
  "on_exception max_tries f c = retry (max_tries - 1) f c"

definition rate_limit_error :: pyval where
  "rate_limit_error = PDict [(''error'', PStr ''Rate limit exceeded'')]"

text \<open>\<open>send_template\<close>: its body, and the decorated method.\<close>

definition send_template_body ::
  "environment \<Rightarrow> whatsapp_client \<Rightarrow> string \<Rightarrow> string \<Rightarrow> (string \<times> pyval) list \<Rightarrow>
   (py_exception + pyval) \<times> whatsapp_client" where
  "send_template_body env c recipient_phone template_name template_params =
     (let out = env (attempt c) in
      if \<not> check_rate_limit c out recipient_phone then (Inr rate_limit_error, c)
      else post_message out c recipient_phone
             (template_payload recipient_phone template_name template_params))"

definition send_template ::
  "environment \<Rightarrow> whatsapp_client \<Rightarrow> string \<Rightarrow> string \<Rightarrow> (string \<times> pyval) list \<Rightarrow>
   (py_exception + pyval) \<times> whatsapp_client" where
  "send_template env c recipient_phone template_name template_params =
     on_exception 5
       (\<lambda>c'. send_template_body env c' recipient_phone template_name template_params) c"

text \<open>\<open>send_text\<close>: its body, and the decorated method.\<close>

definition send_text_body ::
  "environment \<Rightarrow> whatsapp_client \<Rightarrow> string \<Rightarrow> string \<Rightarrow>
   (py_exception + pyval) \<times> whatsapp_client" where
  "send_text_body env c recipient_phone body =
     (let out = env (attempt c) in
      if \<not> check_rate_limit c out recipient_phone then (Inr rate_limit_error, c)
      else if \<not> check_conversation_window c out recipient_phone then
        send_template env c recipient_phone ''loan_follow_up'' [(''default_text'', PStr body)]
      else post_message out c recipient_phone (text_payload recipient_phone body))"

definition send_text ::
  "environment \<Rightarrow> whatsapp_client \<Rightarrow> string \<Rightarrow> string \<Rightarrow>
   (py_exception + pyval) \<times> whatsapp_client" where
  "send_text env c recipient_phone body =
     on_exception 5 (\<lambda>c'. send_text_body env c' recipient_phone body) c"

text \<open>
  Two client states agree on what the rate-limit check and the window check read.
\<close>

definition same_limits :: "whatsapp_client \<Rightarrow> whatsapp_client \<Rightarrow> bool" where
  "same_limits c c' \<longleftrightarrow>
     message_counts c' = message_counts c \<and> rate_limit c' = rate_limit c \<and>
     conversation_windows c' = conversation_windows c \<and> window_duration c' = window_duration c"

text \<open>
  A client that has never written to the recipient, an endpoint that accepts every
  message, and a clock far beyond the first 24 hours.
\<close>

definition example_answer :: pyval where
  "example_answer = PDict [(''messages'', PList [PDict [(''id'', PStr ''wamid.1'')]])]"

definition example_environment :: environment where
  "example_environment =
     (\<lambda>t. \<lparr>now = 1700000000, today = ''2023-11-14'', http_post = (\<lambda>payload. Inr example_answer)\<rparr>)"

definition example_client :: whatsapp_client where
  "example_client =
     \<lparr>message_counts = Map.empty, rate_limit = 1000, conversation_windows = Map.empty,
      window_duration = 24 * 60 * 60, posted = [], attempt = 0\<rparr>"

section \<open>Two inbound messages for one customer (agent/views.py)\<close>











section \<open>Properties of the state machine\<close>

text \<open>
  Claim C1, as amended. The table gives every non-terminal state an entry for
  \<open>interested\<close> (initial to introduction, introduction to qualifying, qualifying to
  property_details, property_details to loan_details, loan_details to closing,
  objection_handling to loan_details, closing to completed, follow_up_scheduling to
  loan_details) and maps \<open>not_interested\<close> to not_interested. It maps \<open>objection\<close> to
  objection_handling in introduction, qualifying, property_details, loan_details,
  objection_handling and closing, and has no \<open>objection\<close> entry in initial and
  follow_up_scheduling. It maps \<open>follow_up_later\<close> to follow_up_scheduling in qualifying,
  property_details, loan_details, objection_handling and closing, and has no
  \<open>follow_up_later\<close> entry in initial, introduction and follow_up_scheduling.
\<close>

theorem transition_table_non_terminal_rows:
  "table_entry State_INITIAL Intent_INTERESTED = Some State_INTRODUCTION \<and>
   table_entry State_INTRODUCTION Intent_INTERESTED = Some State_QUALIFYING \<and>
   table_entry State_QUALIFYING Intent_INTERESTED = Some State_PROPERTY_DETAILS \<and>
   table_entry State_PROPERTY_DETAILS Intent_INTERESTED = Some State_LOAN_DETAILS \<and>
   table_entry State_LOAN_DETAILS Intent_INTERESTED = Some State_CLOSING \<and>
   table_entry State_OBJECTION_HANDLING Intent_INTERESTED = Some State_LOAN_DETAILS \<and>
   table_entry State_CLOSING Intent_INTERESTED = Some State_COMPLETED \<and>
   table_entry State_FOLLOW_UP_SCHEDULING Intent_INTERESTED = Some State_LOAN_DETAILS \<and>
   table_entry State_INITIAL Intent_NOT_INTERESTED = Some State_NOT_INTERESTED \<and>
   table_entry State_INTRODUCTION Intent_NOT_INTERESTED = Some State_NOT_INTERESTED \<and>
   table_entry State_QUALIFYING Intent_NOT_INTERESTED = Some State_NOT_INTERESTED \<and>
   table_entry State_PROPERTY_DETAILS Intent_NOT_INTERESTED = Some State_NOT_INTERESTED \<and>
   table_entry State_LOAN_DETAILS Intent_NOT_INTERESTED = Some State_NOT_INTERESTED \<and>
   table_entry State_OBJECTION_HANDLING Intent_NOT_INTERESTED = Some State_NOT_INTERESTED \<and>
   table_entry State_CLOSING Intent_NOT_INTERESTED = Some State_NOT_INTERESTED \<and>
   table_entry State_FOLLOW_UP_SCHEDULING Intent_NOT_INTERESTED = Some State_NOT_INTERESTED \<and>
   table_entry State_INTRODUCTION Intent_OBJECTION = Some State_OBJECTION_HANDLING \<and>
   table_entry State_QUALIFYING Intent_OBJECTION = Some State_OBJECTION_HANDLING \<and>
   table_entry State_PROPERTY_DETAILS Intent_OBJECTION = Some State_OBJECTION_HANDLING \<and>
   table_entry State_LOAN_DETAILS Intent_OBJECTION = Some State_OBJECTION_HANDLING \<and>
   table_entry State_OBJECTION_HANDLING Intent_OBJECTION = Some State_OBJECTION_HANDLING \<and>
   table_entry State_CLOSING Intent_OBJECTION = Some State_OBJECTION_HANDLING \<and>
   table_entry State_INITIAL Intent_OBJECTION = None \<and>
   table_entry State_FOLLOW_UP_SCHEDULING Intent_OBJECTION = None \<and>
   table_entry State_QUALIFYING Intent_FOLLOW_UP_LATER = Some State_FOLLOW_UP_SCHEDULING \<and>
   table_entry State_PROPERTY_DETAILS Intent_FOLLOW_UP_LATER = Some State_FOLLOW_UP_SCHEDULING \<and>
   table_entry State_LOAN_DETAILS Intent_FOLLOW_UP_LATER = Some State_FOLLOW_UP_SCHEDULING \<and>
   table_entry State_OBJECTION_HANDLING Intent_FOLLOW_UP_LATER = Some State_FOLLOW_UP_SCHEDULING \<and>
   table_entry State_CLOSING Intent_FOLLOW_UP_LATER = Some State_FOLLOW_UP_SCHEDULING \<and>
   table_entry State_INITIAL Intent_FOLLOW_UP_LATER = None \<and>
   table_entry State_INTRODUCTION Intent_FOLLOW_UP_LATER = None \<and>
   table_entry State_FOLLOW_UP_SCHEDULING Intent_FOLLOW_UP_LATER = None"
  by (simp add: table_entry_def state_transitions_def)

text \<open>
  Claim C1 as stated fails on the state \<open>initial\<close>: the table has no entry for
  (initial, objection), and the state computed for that pair is \<open>initial\<close>, not
  \<open>objection_handling\<close>.
\<close>

theorem initial_objection_not_mapped:
  "table_entry State_INITIAL Intent_OBJECTION \<noteq> Some State_OBJECTION_HANDLING \<and>
   update_state State_INITIAL Intent_OBJECTION = State_INITIAL"
  by (simp add: table_entry_def update_state_def state_transitions_def)

text \<open>
  Claim C4. For a pair (current_state, intent) with no entry in the table,
  \<open>_update_state\<close> returns \<open>current_state\<close>; so it does when \<open>current_state\<close> has no
  row at all; and whenever the returned state differs from \<open>current_state\<close>, it is the
  entry of the table for the pair.
\<close>

theorem update_state_unmapped_stays:
  "(table_entry current_state intent = None \<longrightarrow>
      update_state current_state intent = current_state) \<and>
   (map_of state_transitions current_state = None \<longrightarrow>
      update_state current_state intent = current_state) \<and>
   (update_state current_state intent \<noteq> current_state \<longrightarrow>
      table_entry current_state intent = Some (update_state current_state intent))"
  by (auto simp: table_entry_def update_state_def split: option.splits)

theorem update_state_unmapped_stays_witness:
  "table_entry State_COMPLETED Intent_INTERESTED = None \<and>
   update_state State_COMPLETED Intent_INTERESTED = State_COMPLETED \<and>
   map_of state_transitions ''archived'' = None \<and>
   update_state ''archived'' Intent_INTERESTED = ''archived'' \<and>
   table_entry State_FOLLOW_UP_SCHEDULING Intent_OBJECTION = None \<and>
   update_state State_FOLLOW_UP_SCHEDULING Intent_OBJECTION = State_FOLLOW_UP_SCHEDULING"
proof -
  have a: "table_entry State_COMPLETED Intent_INTERESTED = None"
    by (simp add: table_entry_def state_transitions_def)
  have b: "map_of state_transitions ''archived'' = None"
    by (simp add: state_transitions_def)
  have c: "table_entry State_FOLLOW_UP_SCHEDULING Intent_OBJECTION = None"
    by (simp add: table_entry_def state_transitions_def)
  show ?thesis
    using a b c
      update_state_unmapped_stays [of State_COMPLETED Intent_INTERESTED]
      update_state_unmapped_stays [of "''archived''" Intent_INTERESTED]
      update_state_unmapped_stays [of State_FOLLOW_UP_SCHEDULING Intent_OBJECTION]
    by simp
qed

section \<open>Properties of the profile merge\<close>

subsection \<open>The loop over the extracted items, field by field\<close>

lemma keys_disj: "k \<in> set property_keys \<Longrightarrow> k \<notin> set loan_keys \<and> k \<noteq> ''name'' \<and> k \<noteq> ''concerns''"
  "k \<in> set loan_keys \<Longrightarrow> k \<noteq> ''name'' \<and> k \<noteq> ''concerns''"
  by (auto simp: property_keys_def loan_keys_def)

lemma merge_item_cases:
  assumes "merge_item c kv = Inr c'"
  shows "phone_number c' = phone_number c \<and> conversation_state c' = conversation_state c \<and>
         interest_level c' = interest_level c \<and> do_not_contact c' = do_not_contact c"
  using assms by (auto simp: merge_item_def Let_def split: if_splits option.splits pyval.splits)

lemma merge_items_other:
  "merge_items c e = Inr c' \<Longrightarrow> phone_number c' = phone_number c \<and> conversation_state c' = conversation_state c \<and>
         interest_level c' = interest_level c \<and> do_not_contact c' = do_not_contact c"
proof (induction e arbitrary: c)
  case Nil then show ?case by simp
next
  case (Cons kv e)
  then obtain c1 where 1: "merge_item c kv = Inr c1" and 2: "merge_items c1 e = Inr c'"
    by (auto split: sum.splits)
  from Cons.IH[OF 2] merge_item_cases[OF 1] show ?case by simp
qed

lemma merge_item_pd:
  "merge_item c kv = Inr c' \<Longrightarrow>
   property_details c' = (if fst kv \<in> set property_keys then (property_details c)(fst kv \<mapsto> snd kv) else property_details c)"
  by (auto simp: merge_item_def Let_def split: if_splits option.splits pyval.splits)

lemma merge_items_pd:
  "merge_items c e = Inr c' \<Longrightarrow>
   property_details c' = property_details c ++ map_of (rev (filter (\<lambda>kv. fst kv \<in> set property_keys) e))"
proof (induction e arbitrary: c)
  case Nil then show ?case by simp
next
  case (Cons kv e)
  then obtain c1 where 1: "merge_item c kv = Inr c1" and 2: "merge_items c1 e = Inr c'"
    by (auto split: sum.splits)
  show ?case
    using Cons.IH[OF 2] merge_item_pd[OF 1]
    by (cases kv) (auto simp: map_add_upd_left)
qed


lemma merge_item_lr:
  "merge_item c kv = Inr c' \<Longrightarrow> k \<noteq> ''concerns'' \<Longrightarrow>
   loan_requirements c' k = (if fst kv \<in> set loan_keys \<and> fst kv = k then Some (snd kv) else loan_requirements c k)"
  by (auto simp: merge_item_def Let_def keys_disj split: if_splits option.splits pyval.splits)

lemma merge_items_lr:
  "merge_items c e = Inr c' \<Longrightarrow> k \<noteq> ''concerns'' \<Longrightarrow>
   loan_requirements c' k =
     (loan_requirements c ++ map_of (rev (filter (\<lambda>kv. fst kv \<in> set loan_keys) e))) k"
proof (induction e arbitrary: c)
  case Nil then show ?case by simp
next
  case (Cons kv e)
  then obtain c1 where 1: "merge_item c kv = Inr c1" and 2: "merge_items c1 e = Inr c'"
    by (auto split: sum.splits)
  show ?case
    using Cons.IH[OF 2 Cons.prems(2)] merge_item_lr[OF 1 Cons.prems(2)]
    by (cases kv) (auto simp: map_add_def split: option.splits)
qed

lemma merge_item_name:
  "merge_item c kv = Inr c' \<Longrightarrow>
   name c' = (if fst kv = ''name'' \<and> name c = PNone then snd kv else name c)"
  by (auto simp: merge_item_def Let_def property_keys_def loan_keys_def split: if_splits option.splits pyval.splits)

lemma merge_items_name_set:
  "merge_items c e = Inr c' \<Longrightarrow> name c \<noteq> PNone \<Longrightarrow> name c' = name c"
proof (induction e arbitrary: c)
  case Nil then show ?case by simp
next
  case (Cons kv e)
  then obtain c1 where 1: "merge_item c kv = Inr c1" and 2: "merge_items c1 e = Inr c'"
    by (auto split: sum.splits)
  from merge_item_name[OF 1] Cons.prems(2) have "name c1 = name c" by simp
  with Cons.IH[OF 2] Cons.prems(2) show ?case by simp
qed

lemma merge_items_name_unset:
  "merge_items c e = Inr c' \<Longrightarrow> name c' = PNone \<Longrightarrow>
   name c = PNone \<and> (\<forall>kv \<in> set e. fst kv = ''name'' \<longrightarrow> snd kv = PNone)"
proof (induction e arbitrary: c)
  case Nil then show ?case by simp
next
  case (Cons kv e)
  then obtain c1 where 1: "merge_item c kv = Inr c1" and 2: "merge_items c1 e = Inr c'"
    by (auto split: sum.splits)
  from Cons.IH[OF 2 Cons.prems(2)]
  have a: "name c1 = PNone" and b: "\<forall>kv \<in> set e. fst kv = ''name'' \<longrightarrow> snd kv = PNone" by auto
  from merge_item_name[OF 1] a b show ?case by (auto split: if_splits)
qed

lemma merge_items_name_none:
  "merge_items c e = Inr c' \<Longrightarrow> \<forall>kv \<in> set e. fst kv = ''name'' \<longrightarrow> snd kv = PNone \<Longrightarrow> name c' = name c"
proof (induction e arbitrary: c)
  case Nil then show ?case by simp
next
  case (Cons kv e)
  then obtain c1 where 1: "merge_item c kv = Inr c1" and 2: "merge_items c1 e = Inr c'"
    by (auto split: sum.splits)
  from merge_item_name[OF 1] Cons.prems(2) have "name c1 = name c" by auto
  with Cons.IH[OF 2] Cons.prems(2) show ?case by simp
qed

lemma merge_items_name_idem:
  assumes "merge_items c e = Inr c1" "merge_items c1' e = Inr c2" "name c1' = name c1"
  shows "name c2 = name c1"
proof (cases "name c1 = PNone")
  case True
  with merge_items_name_unset[OF assms(1)] have "\<forall>kv \<in> set e. fst kv = ''name'' \<longrightarrow> snd kv = PNone" by simp
  from merge_items_name_none[OF assms(2) this] assms(3) show ?thesis by simp
next
  case False
  with merge_items_name_set[OF assms(2)] assms(3) show ?thesis by simp
qed


lemma merge_item_concerns_other:
  "merge_item c kv = Inr c' \<Longrightarrow> fst kv \<noteq> ''concerns'' \<Longrightarrow> loan_requirements c' ''concerns'' = loan_requirements c ''concerns''"
  by (auto simp: merge_item_def Let_def property_keys_def loan_keys_def split: if_splits option.splits pyval.splits)

lemma merge_item_concerns:
  "fst kv = ''concerns'' \<Longrightarrow>
   merge_item c kv = (case concerns_list c of None \<Rightarrow> Inl (AttributeError ''object has no attribute extend or append'')
      | Some old \<Rightarrow> Inr (c\<lparr>loan_requirements := (loan_requirements c)(''concerns'' \<mapsto> PList (old @ concern_values (snd kv)))\<rparr>))"
  by (auto simp: merge_item_def Let_def concerns_list_def property_keys_def loan_keys_def split: if_splits option.splits pyval.splits)

lemma merge_item_total_other:
  "fst kv \<noteq> ''concerns'' \<Longrightarrow> \<exists>c'. merge_item c kv = Inr c'"
  by (auto simp: merge_item_def Let_def)

lemma merge_items_concerns:
  "merge_items c e = Inr c' \<Longrightarrow>
   (if filter (\<lambda>kv. fst kv = ''concerns'') e = [] then loan_requirements c' ''concerns'' = loan_requirements c ''concerns''
    else (\<exists>old. concerns_list c = Some old \<and> loan_requirements c' ''concerns'' = Some (PList (old @ concerns_added e))))"
proof (induction e arbitrary: c)
  case Nil then show ?case by simp
next
  case (Cons kv e)
  then obtain c1 where 1: "merge_item c kv = Inr c1" and 2: "merge_items c1 e = Inr c'"
    by (auto split: sum.splits)
  show ?case
  proof (cases "fst kv = ''concerns''")
    case False
    with Cons.IH[OF 2] merge_item_concerns_other[OF 1 False] show ?thesis
      by (auto simp: concerns_added_def concerns_list_def)
  next
    case True
    from 1 merge_item_concerns[OF True, of c] obtain old where
      o: "concerns_list c = Some old" and
      c1: "c1 = c\<lparr>loan_requirements := (loan_requirements c)(''concerns'' \<mapsto> PList (old @ concern_values (snd kv)))\<rparr>"
      by (auto split: option.splits)
    have cl1: "concerns_list c1 = Some (old @ concern_values (snd kv))"
      by (simp add: c1 concerns_list_def)
    have lr1: "loan_requirements c1 ''concerns'' = Some (PList (old @ concern_values (snd kv)))"
      by (simp add: c1)
    from Cons.IH[OF 2] True o cl1 lr1 show ?thesis
      by (auto simp: concerns_added_def split: if_splits)
  qed
qed

lemma merge_items_succeeds:
  "filter (\<lambda>kv. fst kv = ''concerns'') e = [] \<or> concerns_list c \<noteq> None \<Longrightarrow> \<exists>c'. merge_items c e = Inr c'"
proof (induction e arbitrary: c)
  case Nil then show ?case by simp
next
  case (Cons kv e)
  show ?case
  proof (cases "fst kv = ''concerns''")
    case False
    from merge_item_total_other[OF False, of c] obtain c1 where 1: "merge_item c kv = Inr c1" by blast
    from merge_item_concerns_other[OF 1 False] have "concerns_list c1 = concerns_list c"
      by (simp add: concerns_list_def)
    with Cons.prems False have "filter (\<lambda>kv. fst kv = ''concerns'') e = [] \<or> concerns_list c1 \<noteq> None" by auto
    from Cons.IH[OF this] 1 show ?thesis by simp
  next
    case True
    with Cons.prems obtain old where o: "concerns_list c = Some old" by auto
    define c1 where "c1 = c\<lparr>loan_requirements := (loan_requirements c)(''concerns'' \<mapsto> PList (old @ concern_values (snd kv)))\<rparr>"
    have 1: "merge_item c kv = Inr c1" using merge_item_concerns[OF True, of c] o by (simp add: c1_def)
    have "concerns_list c1 \<noteq> None" by (simp add: c1_def concerns_list_def)
    from Cons.IH[of c1] this 1 show ?thesis by simp
  qed
qed



lemma map_add_twice: "(m ++ f) ++ f = m ++ f"
  by (rule ext) (simp add: map_add_def split: option.splits)

lemma update_customer_profile_returns:
  assumes "filter (\<lambda>kv. fst kv = ''concerns'') e = [] \<or> concerns_list cust \<noteq> None"
  shows "\<exists>m c'. merge_items cust e = Inr m \<and>
     update_customer_profile cust e intent st = Inr c' \<and>
     phone_number c' = phone_number m \<and> name c' = name m \<and>
     property_details c' = property_details m \<and>
     loan_requirements c' = loan_requirements m \<and>
     conversation_state c' = st \<and>
     interest_level c' = interest_level_after intent (interest_level cust) \<and>
     do_not_contact c' =
       (case map_of e ''do_not_contact'' of
          Some v \<Rightarrow> (if truthy v then True else do_not_contact cust)
        | None \<Rightarrow> do_not_contact cust)"
proof -
  from merge_items_succeeds[OF assms] obtain m where m: "merge_items cust e = Inr m" by blast
  from merge_items_other[OF m] have o: "interest_level m = interest_level cust" "do_not_contact m = do_not_contact cust"
    by simp_all
  show ?thesis
    using m o by (simp add: update_customer_profile_def Let_def split: option.splits)
qed

lemma update_customer_profile_Inr:
  assumes "update_customer_profile cust e intent st = Inr c1"
  shows "filter (\<lambda>kv. fst kv = ''concerns'') e = [] \<or> concerns_list cust \<noteq> None"
proof -
  from assms obtain m where m: "merge_items cust e = Inr m"
    by (auto simp: update_customer_profile_def split: sum.splits)
  from merge_items_concerns[OF m] show ?thesis by (auto split: if_splits)
qed


subsection \<open>Interest level\<close>

text \<open>
  Claim C2, as amended. Whenever \<open>update_customer_profile\<close> completes (it does unless
  \<open>extracted_info\<close> has a \<open>concerns\<close> entry and the stored \<open>concerns\<close> is not a list),
  the stored interest level is exactly \<open>min(1.0, x + 0.2)\<close> for \<open>interested\<close>,
  \<open>min(0.8, x + 0.1)\<close> for \<open>needs_more_info\<close>, \<open>max(0.1, x - 0.1)\<close> for \<open>objection\<close>
  and \<open>max(0.0, x - 0.3)\<close> for \<open>not_interested\<close>, where \<open>x\<close> is the starting value; and
  when the starting value lies in [0, 1], so does the stored one.
\<close>

theorem interest_level_single_update:
  assumes "filter (\<lambda>kv. fst kv = ''concerns'') e = [] \<or> concerns_list cust \<noteq> None"
  shows "\<exists>cust'. update_customer_profile cust e intent st = Inr cust' \<and>
     (intent = ''interested'' \<longrightarrow> interest_level cust' = min 1.0 (interest_level cust + 0.2)) \<and>
     (intent = ''needs_more_info'' \<longrightarrow> interest_level cust' = min 0.8 (interest_level cust + 0.1)) \<and>
     (intent = ''objection'' \<longrightarrow> interest_level cust' = max 0.1 (interest_level cust - 0.1)) \<and>
     (intent = ''not_interested'' \<longrightarrow> interest_level cust' = max 0.0 (interest_level cust - 0.3)) \<and>
     (0 \<le> interest_level cust \<and> interest_level cust \<le> 1 \<longrightarrow>
        0 \<le> interest_level cust' \<and> interest_level cust' \<le> 1)"
proof -
  from update_customer_profile_returns[OF assms, of intent st] obtain c' where
    u: "update_customer_profile cust e intent st = Inr c'" and
    i: "interest_level c' = interest_level_after intent (interest_level cust)" by blast
  have "(0 \<le> interest_level cust \<and> interest_level cust \<le> 1 \<longrightarrow>
        0 \<le> interest_level c' \<and> interest_level c' \<le> 1)"
    unfolding i by (simp add: interest_level_after_def min_def max_def)
  with u i show ?thesis by (simp add: interest_level_after_def)
qed


theorem interest_level_single_update_witness:
  "(\<exists>c. update_customer_profile (example_customer\<lparr>interest_level := 9 / 10\<rparr>) []
          ''interested'' State_QUALIFYING = Inr c \<and> interest_level c = 1) \<and>
   (\<exists>c. update_customer_profile (example_customer\<lparr>interest_level := 9 / 10\<rparr>) []
          ''needs_more_info'' State_QUALIFYING = Inr c \<and> interest_level c = 8 / 10) \<and>
   (\<exists>c. update_customer_profile (example_customer\<lparr>interest_level := 9 / 10\<rparr>) []
          ''objection'' State_OBJECTION_HANDLING = Inr c \<and> interest_level c = 8 / 10) \<and>
   (\<exists>c. update_customer_profile (example_customer\<lparr>interest_level := 2 / 10\<rparr>) []
          ''not_interested'' State_NOT_INTERESTED = Inr c \<and> interest_level c = 0)"
  using
    interest_level_single_update [of "[]" "example_customer\<lparr>interest_level := 9 / 10\<rparr>"
      "''interested''" State_QUALIFYING]
    interest_level_single_update [of "[]" "example_customer\<lparr>interest_level := 9 / 10\<rparr>"
      "''needs_more_info''" State_QUALIFYING]
    interest_level_single_update [of "[]" "example_customer\<lparr>interest_level := 9 / 10\<rparr>"
      "''objection''" State_OBJECTION_HANDLING]
    interest_level_single_update [of "[]" "example_customer\<lparr>interest_level := 2 / 10\<rparr>"
      "''not_interested''" State_NOT_INTERESTED]
  by auto

text \<open>
  Claim C2 as stated fails for a starting value outside [0, 1]: the clamps are one-sided.
  From 2.0, an \<open>objection\<close> stores \<open>max(0.1, 1.9) = 1.9\<close>.
\<close>

theorem interest_level_leaves_unit_interval:
  "update_customer_profile (example_customer\<lparr>interest_level := 2\<rparr>) []
       ''objection'' State_OBJECTION_HANDLING
     = Inr (example_customer\<lparr>conversation_state := State_OBJECTION_HANDLING,
                             interest_level := 19 / 10\<rparr>) \<and>
   \<not> (19 / 10 \<le> (1::real))"
  by (simp add: update_customer_profile_def example_customer_def interest_level_after_def)

subsection \<open>Applying the merge twice\<close>

text \<open>
  Claim C3, as amended. If \<open>update_customer_profile\<close> completes, a second application
  with the same arguments to the stored record completes too, and leaves the name, the
  property details, every loan requirement but \<open>concerns\<close>, the conversation state and
  the do-not-contact flag as the first application stored them. The list \<open>concerns\<close>
  grows: it is the list stored by the first application followed by the extracted
  concerns (and is untouched when \<open>extracted_info\<close> has no \<open>concerns\<close> entry). The
  interest level is not kept: the delta of the intent is applied a second time.
\<close>

theorem update_customer_profile_twice:
  assumes "update_customer_profile cust e intent st = Inr c1"
  shows "\<exists>c2. update_customer_profile c1 e intent st = Inr c2 \<and>
     phone_number c2 = phone_number c1 \<and>
     name c2 = name c1 \<and>
     property_details c2 = property_details c1 \<and>
     (\<forall>k. k \<noteq> ''concerns'' \<longrightarrow> loan_requirements c2 k = loan_requirements c1 k) \<and>
     conversation_state c2 = conversation_state c1 \<and>
     do_not_contact c2 = do_not_contact c1 \<and>
     (if filter (\<lambda>kv. fst kv = ''concerns'') e = []
      then loan_requirements c2 ''concerns'' = loan_requirements c1 ''concerns''
      else (\<exists>old. loan_requirements c1 ''concerns'' = Some (PList old) \<and>
                  loan_requirements c2 ''concerns'' = Some (PList (old @ concerns_added e)))) \<and>
     interest_level c2 = interest_level_after intent (interest_level c1)"
proof -
  let ?C = "filter (\<lambda>kv. fst kv = ''concerns'') e"
  from update_customer_profile_Inr[OF assms]
  have pre: "?C = [] \<or> concerns_list cust \<noteq> None" .
  from update_customer_profile_returns[OF pre, of intent st] assms obtain m where
    m: "merge_items cust e = Inr m" and
    f1: "phone_number c1 = phone_number m" "name c1 = name m" "property_details c1 = property_details m"
        "loan_requirements c1 = loan_requirements m" "conversation_state c1 = st"
        "do_not_contact c1 = (case map_of e ''do_not_contact'' of
                   Some v \<Rightarrow> (if truthy v then True else do_not_contact cust)
                 | None \<Rightarrow> do_not_contact cust)"
    by auto
  have cl1: "?C \<noteq> [] \<Longrightarrow> \<exists>old. loan_requirements c1 ''concerns'' = Some (PList old)"
    using merge_items_concerns[OF m] f1(4) by (auto split: if_splits)
  have pre1: "?C = [] \<or> concerns_list c1 \<noteq> None"
  proof (cases "?C = []")
    case True then show ?thesis by simp
  next
    case False
    from cl1[OF False] obtain old where "loan_requirements c1 ''concerns'' = Some (PList old)" by blast
    then show ?thesis by (simp add: concerns_list_def)
  qed
  from update_customer_profile_returns[OF pre1, of intent st] obtain m2 c2 where
    m2: "merge_items c1 e = Inr m2" and
    u2: "update_customer_profile c1 e intent st = Inr c2" and
    f2: "phone_number c2 = phone_number m2" "name c2 = name m2" "property_details c2 = property_details m2"
        "loan_requirements c2 = loan_requirements m2" "conversation_state c2 = st"
        "do_not_contact c2 = (case map_of e ''do_not_contact'' of
                   Some v \<Rightarrow> (if truthy v then True else do_not_contact c1)
                 | None \<Rightarrow> do_not_contact c1)"
        "interest_level c2 = interest_level_after intent (interest_level c1)"
    by blast
  have g1: "phone_number c2 = phone_number c1"
    using merge_items_other[OF m2] f2(1) by simp
  have g2: "name c2 = name c1"
    using merge_items_name_idem[OF m m2] f1(2) f2(2) by simp
  have g3: "property_details c2 = property_details c1"
    using merge_items_pd[OF m] merge_items_pd[OF m2] f1(3) f2(3) by (simp add: map_add_twice)
  have g4: "\<forall>k. k \<noteq> ''concerns'' \<longrightarrow> loan_requirements c2 k = loan_requirements c1 k"
  proof (intro allI impI)
    fix k :: string assume k: "k \<noteq> ''concerns''"
    show "loan_requirements c2 k = loan_requirements c1 k"
      using merge_items_lr[OF m k] merge_items_lr[OF m2 k] f1(4) f2(4)
      by (simp add: map_add_def split: option.splits)
  qed
  have g5: "conversation_state c2 = conversation_state c1"
    using f1(5) f2(5) by simp
  have g6: "do_not_contact c2 = do_not_contact c1"
    using f1(6) f2(6) by (simp split: option.splits)
  have g7: "if ?C = []
      then loan_requirements c2 ''concerns'' = loan_requirements c1 ''concerns''
      else (\<exists>old. loan_requirements c1 ''concerns'' = Some (PList old) \<and>
                  loan_requirements c2 ''concerns'' = Some (PList (old @ concerns_added e)))"
  proof (cases "?C = []")
    case True
    with merge_items_concerns[OF m2] f2(4) show ?thesis by simp
  next
    case False
    from cl1[OF False] obtain old where old: "loan_requirements c1 ''concerns'' = Some (PList old)" by blast
    then have "concerns_list c1 = Some old" by (simp add: concerns_list_def)
    with merge_items_concerns[OF m2] False f2(4) old show ?thesis by simp
  qed
  from u2 g1 g2 g3 g4 g5 g6 g7 f2(7) show ?thesis by blast
qed


theorem update_customer_profile_twice_witness:
  "\<exists>c2. update_customer_profile
          (example_customer\<lparr>name := PStr ''Asha'',
             property_details := [''property_type'' \<mapsto> PStr ''flat''],
             loan_requirements := [''concerns'' \<mapsto> PList [PStr ''rate'']],
             conversation_state := State_QUALIFYING\<rparr>)
          [(''name'', PStr ''Asha''), (''property_type'', PStr ''flat''), (''concerns'', PStr ''rate'')]
          Intent_ASKING_QUESTION State_QUALIFYING = Inr c2 \<and>
        name c2 = PStr ''Asha'' \<and>
        property_details c2 = [''property_type'' \<mapsto> PStr ''flat''] \<and>
        conversation_state c2 = State_QUALIFYING \<and>
        loan_requirements c2 ''concerns'' = Some (PList [PStr ''rate'', PStr ''rate'']) \<and>
        interest_level c2 = 0"
proof -
  have first:
    "update_customer_profile example_customer
       [(''name'', PStr ''Asha''), (''property_type'', PStr ''flat''), (''concerns'', PStr ''rate'')]
       Intent_ASKING_QUESTION State_QUALIFYING
     = Inr (example_customer\<lparr>name := PStr ''Asha'',
             property_details := [''property_type'' \<mapsto> PStr ''flat''],
             loan_requirements := [''concerns'' \<mapsto> PList [PStr ''rate'']],
             conversation_state := State_QUALIFYING\<rparr>)"
    by (simp add: update_customer_profile_def example_customer_def merge_item_def
          property_keys_def loan_keys_def interest_level_after_def)
  show ?thesis
    using update_customer_profile_twice [OF first]
    by (auto simp: example_customer_def concerns_added_def interest_level_after_def)
qed

text \<open>
  Claim C3 as stated fails on the interest level: with no extracted information and the
  intent \<open>interested\<close>, the first application stores 0.2 and the second 0.4, so the
  record after two applications differs from the record after one in a field other than
  \<open>concerns\<close>.
\<close>

theorem update_customer_profile_twice_changes_interest:
  "update_customer_profile example_customer [] ''interested'' State_INTRODUCTION
     = Inr (example_customer\<lparr>conversation_state := State_INTRODUCTION, interest_level := 1 / 5\<rparr>) \<and>
   update_customer_profile
       (example_customer\<lparr>conversation_state := State_INTRODUCTION, interest_level := 1 / 5\<rparr>)
       [] ''interested'' State_INTRODUCTION
     = Inr (example_customer\<lparr>conversation_state := State_INTRODUCTION, interest_level := 2 / 5\<rparr>) \<and>
   interest_level (example_customer\<lparr>conversation_state := State_INTRODUCTION, interest_level := 2 / 5\<rparr>)
     \<noteq> interest_level (example_customer\<lparr>conversation_state := State_INTRODUCTION, interest_level := 1 / 5\<rparr>)"
  by (simp add: update_customer_profile_def example_customer_def interest_level_after_def)

section \<open>Properties of the WhatsApp client\<close>

subsection \<open>Failed tries leave the counters and windows alone\<close>

lemma same_limits_refl: "same_limits c c"
  by (simp add: same_limits_def)

lemma same_limits_checks:
  "same_limits c c' \<Longrightarrow> check_rate_limit c' out p = check_rate_limit c out p"
  "same_limits c c' \<Longrightarrow> check_conversation_window c' out p = check_conversation_window c out p"
  by (simp_all add: same_limits_def check_rate_limit_def check_conversation_window_def)

lemma same_limits_attempt:
  "same_limits c c' \<Longrightarrow> same_limits c (c'\<lparr>attempt := n\<rparr>)"
  by (simp add: same_limits_def)

lemma post_message_fails:
  "post_message out c p payload = (Inl ex, c') \<Longrightarrow>
   same_limits c c' \<and> attempt c' = attempt c \<and> posted c' = posted c @ [payload]"
  by (auto simp: post_message_def Let_def same_limits_def split: sum.splits)

lemma post_message_posted:
  "posted (snd (post_message out c p payload)) = posted c @ [payload]"
  by (simp add: post_message_def Let_def update_conversation_window_def update_message_count_def
      split: sum.splits)

lemma send_template_body_fails:
  "send_template_body env c p nm ps = (Inl ex, c') \<Longrightarrow> same_limits c c'"
  by (auto simp: send_template_body_def Let_def split: if_splits dest: post_message_fails)

lemma retry_fails:
  assumes "\<And>c c' ex. f c = (Inl ex, c') \<Longrightarrow> same_limits c c'"
  shows "retry n f c = (Inl ex, c') \<Longrightarrow> same_limits c c'"
proof (induction n arbitrary: c)
  case 0
  then show ?case using assms by simp
next
  case (Suc n)
  obtain r1 c1 where f: "f c = (r1, c1)" by (cases "f c")
  show ?case
  proof (cases r1)
    case (Inr v)
    with Suc.prems f show ?thesis by (simp add: Let_def)
  next
    case (Inl e1)
    from assms f Inl have s1: "same_limits c c1" by simp
    show ?thesis
    proof (cases "is_request_exception e1")
      case False
      with Suc.prems f Inl s1 show ?thesis by (simp add: Let_def)
    next
      case True
      with Suc.prems f Inl have "retry n f (c1\<lparr>attempt := Suc (attempt c1)\<rparr>) = (Inl ex, c')"
        by (simp add: Let_def)
      from Suc.IH[OF this] have "same_limits (c1\<lparr>attempt := Suc (attempt c1)\<rparr>) c'" .
      with s1 show ?thesis by (simp add: same_limits_def)
    qed
  qed
qed

lemma send_template_fails:
  "send_template env c p nm ps = (Inl ex, c') \<Longrightarrow> same_limits c c'"
  unfolding send_template_def on_exception_def
  by (rule retry_fails[where f = "\<lambda>c'. send_template_body env c' p nm ps"])
     (auto dest: send_template_body_fails)

lemma retry_cong_limits:
  assumes fg: "\<And>c'. same_limits c c' \<Longrightarrow> f c' = g c'"
    and fail: "\<And>c1 c2 ex. g c1 = (Inl ex, c2) \<Longrightarrow> same_limits c1 c2"
  shows "same_limits c c' \<Longrightarrow> retry n f c' = retry n g c'"
proof (induction n arbitrary: c')
  case 0
  then show ?case using fg by simp
next
  case (Suc n)
  obtain r1 c1 where g: "g c' = (r1, c1)" by (cases "g c'")
  with fg[OF Suc.prems] have f: "f c' = (r1, c1)" by simp
  show ?case
  proof (cases r1)
    case (Inr v)
    with f g show ?thesis by (simp add: Let_def)
  next
    case (Inl e1)
    with fail g have "same_limits c' c1" by simp
    with Suc.prems have "same_limits c (c1\<lparr>attempt := Suc (attempt c1)\<rparr>)"
      by (simp add: same_limits_def)
    from Suc.IH[OF this] f g Inl show ?thesis by (simp add: Let_def)
  qed
qed

lemma send_text_body_redirect:
  assumes "check_rate_limit c (env (attempt c)) p"
    and "\<not> check_conversation_window c (env (attempt c)) p"
  shows "send_text_body env c p body = send_template env c p ''loan_follow_up'' [(''default_text'', PStr body)]"
  using assms by (simp add: send_text_body_def Let_def)

lemma send_text_redirect:
  assumes "\<forall>t. check_rate_limit c (env t) p \<and> \<not> check_conversation_window c (env t) p"
  shows "send_text env c p body =
         retry 4 (\<lambda>c'. send_template env c' p ''loan_follow_up'' [(''default_text'', PStr body)]) c"
proof -
  have "retry 4 (\<lambda>c'. send_text_body env c' p body) c =
        retry 4 (\<lambda>c'. send_template env c' p ''loan_follow_up'' [(''default_text'', PStr body)]) c"
  proof (rule retry_cong_limits[where c = c])
    fix c' assume s: "same_limits c c'"
    from assms same_limits_checks[OF s]
    have "check_rate_limit c' (env (attempt c')) p" "\<not> check_conversation_window c' (env (attempt c')) p"
      by simp_all
    then show "send_text_body env c' p body = send_template env c' p ''loan_follow_up'' [(''default_text'', PStr body)]"
      by (rule send_text_body_redirect)
  next
    fix c1 c2 ex
    assume "send_template env c1 p ''loan_follow_up'' [(''default_text'', PStr body)] = (Inl ex, c2)"
    then show "same_limits c1 c2" by (rule send_template_fails)
  next
    show "same_limits c c" by (rule same_limits_refl)
  qed
  then show ?thesis by (simp add: send_text_def on_exception_def)
qed

lemma send_template_body_posted:
  "\<exists>k. posted (snd (send_template_body env c p nm ps)) = posted c @ replicate k (template_payload p nm ps)"
proof (cases "check_rate_limit c (env (attempt c)) p")
  case True
  then have "posted (snd (send_template_body env c p nm ps)) = posted c @ replicate 1 (template_payload p nm ps)"
    by (simp add: send_template_body_def Let_def post_message_posted)
  then show ?thesis by blast
next
  case False
  then have "posted (snd (send_template_body env c p nm ps)) = posted c @ replicate 0 (template_payload p nm ps)"
    by (simp add: send_template_body_def Let_def)
  then show ?thesis by blast
qed

lemma retry_posted:
  assumes "\<And>c. \<exists>k. posted (snd (f c)) = posted c @ replicate k x"
  shows "\<exists>k. posted (snd (retry n f c)) = posted c @ replicate k x"
proof (induction n arbitrary: c)
  case 0
  then show ?case using assms by simp
next
  case (Suc n)
  from assms[of c] obtain k1 where k1: "posted (snd (f c)) = posted c @ replicate k1 x" by blast
  let ?c1 = "(snd (f c))\<lparr>attempt := Suc (attempt (snd (f c)))\<rparr>"
  from Suc.IH[of ?c1] obtain k2 where k2: "posted (snd (retry n f ?c1)) = posted ?c1 @ replicate k2 x" by blast
  have "posted (snd (retry n f ?c1)) = posted c @ replicate (k1 + k2) x"
    using k1 k2 by (simp add: replicate_add)
  with k1 show ?case
    by (auto simp: Let_def split: sum.splits)
qed

lemma send_template_posted:
  "\<exists>k. posted (snd (send_template env c p nm ps)) = posted c @ replicate k (template_payload p nm ps)"
  unfolding send_template_def on_exception_def
  by (rule retry_posted) (rule send_template_body_posted)


subsection \<open>Sending text after the conversation window has expired\<close>

text \<open>
  Claim C8. When the rate limit of the recipient is not exceeded and the conversation
  window has expired, the body of \<open>send_text\<close> is the call
  \<open>send_template(recipient_phone, "loan_follow_up", {"default_text": text})\<close>: same
  result, same effects. When that holds at every try, the decorated \<open>send_text\<close> is
  that call of \<open>send_template\<close> under the retry decorator, and every payload it posts
  is the template payload carrying the text; no text payload is posted.
\<close>

theorem send_text_window_expired:
  "(check_rate_limit c (env (attempt c)) recipient_phone \<and>
    \<not> check_conversation_window c (env (attempt c)) recipient_phone \<longrightarrow>
      send_text_body env c recipient_phone body =
        send_template env c recipient_phone ''loan_follow_up'' [(''default_text'', PStr body)]) \<and>
   ((\<forall>t. check_rate_limit c (env t) recipient_phone \<and>
         \<not> check_conversation_window c (env t) recipient_phone) \<longrightarrow>
      send_text env c recipient_phone body =
        retry 4 (\<lambda>c'. send_template env c' recipient_phone ''loan_follow_up''
                         [(''default_text'', PStr body)]) c \<and>
      (\<exists>k. posted (snd (send_text env c recipient_phone body)) =
             posted c @ replicate k (template_payload recipient_phone ''loan_follow_up''
                                       [(''default_text'', PStr body)])))"
proof (intro conjI impI)
  assume "check_rate_limit c (env (attempt c)) recipient_phone \<and>
    \<not> check_conversation_window c (env (attempt c)) recipient_phone"
  then show "send_text_body env c recipient_phone body =
        send_template env c recipient_phone ''loan_follow_up'' [(''default_text'', PStr body)]"
    by (simp add: send_text_body_redirect)
next
  assume a: "\<forall>t. check_rate_limit c (env t) recipient_phone \<and>
         \<not> check_conversation_window c (env t) recipient_phone"
  then show "send_text env c recipient_phone body =
        retry 4 (\<lambda>c'. send_template env c' recipient_phone ''loan_follow_up''
                         [(''default_text'', PStr body)]) c"
    by (rule send_text_redirect)
next
  assume a: "\<forall>t. check_rate_limit c (env t) recipient_phone \<and>
         \<not> check_conversation_window c (env t) recipient_phone"
  have "\<exists>k. posted (snd (retry 4 (\<lambda>c'. send_template env c' recipient_phone ''loan_follow_up''
                         [(''default_text'', PStr body)]) c)) =
             posted c @ replicate k (template_payload recipient_phone ''loan_follow_up''
                                       [(''default_text'', PStr body)])"
    by (rule retry_posted) (rule send_template_posted)
  with send_text_redirect[OF a]
  show "\<exists>k. posted (snd (send_text env c recipient_phone body)) =
             posted c @ replicate k (template_payload recipient_phone ''loan_follow_up''
                                       [(''default_text'', PStr body)])"
    by simp
qed

lemma example_checks:
  "check_rate_limit example_client (example_environment t) ''918123456789''"
  "\<not> check_conversation_window example_client (example_environment t) ''918123456789''"
  by (simp_all add: check_rate_limit_def check_conversation_window_def example_client_def
        example_environment_def)

lemma example_send_template:
  "send_template example_environment example_client ''918123456789'' ''loan_follow_up''
       [(''default_text'', PStr ''Hello'')]
   = (Inr example_answer,
      example_client\<lparr>
        message_counts := [''918123456789:2023-11-14'' \<mapsto> 1],
        conversation_windows := [''918123456789'' \<mapsto> 1700000000],
        posted := [template_payload ''918123456789'' ''loan_follow_up''
                     [(''default_text'', PStr ''Hello'')]]\<rparr>)"
  by (simp add: send_template_def on_exception_def send_template_body_def post_message_def
        check_rate_limit_def update_message_count_def update_conversation_window_def
        count_key_def example_client_def example_environment_def Let_def numeral_eq_Suc)

theorem send_text_window_expired_witness:
  "check_rate_limit example_client (example_environment (attempt example_client)) ''918123456789'' \<and>
   \<not> check_conversation_window example_client (example_environment (attempt example_client))
        ''918123456789'' \<and>
   send_text_body example_environment example_client ''918123456789'' ''Hello''
     = (Inr example_answer,
        example_client\<lparr>
          message_counts := [''918123456789:2023-11-14'' \<mapsto> 1],
          conversation_windows := [''918123456789'' \<mapsto> 1700000000],
          posted := [template_payload ''918123456789'' ''loan_follow_up''
                       [(''default_text'', PStr ''Hello'')]]\<rparr>) \<and>
   send_text example_environment example_client ''918123456789'' ''Hello''
     = (Inr example_answer,
        example_client\<lparr>
          message_counts := [''918123456789:2023-11-14'' \<mapsto> 1],
          conversation_windows := [''918123456789'' \<mapsto> 1700000000],
          posted := [template_payload ''918123456789'' ''loan_follow_up''
                       [(''default_text'', PStr ''Hello'')]]\<rparr>)"
  using send_text_window_expired [of example_client example_environment "''918123456789''" "''Hello''"]
    example_checks example_send_template
  by (simp add: numeral_eq_Suc Let_def)

section \<open>Properties of the currency normalizer\<close>

lemma upper_not_digit: "c \<in> set ''ABCDEFGHIJKLMNOPQRSTUVWXYZ'' \<Longrightarrow> \<not> is_digit c"
  unfolding is_digit_def by auto

lemma lower_not_digit: "c \<in> set ''abcdefghijklmnopqrstuvwxyz'' \<Longrightarrow> \<not> is_digit c"
  unfolding is_digit_def by auto

lemma is_digit_lower_char: "is_digit (lower_char c) = is_digit c"
proof (cases "map_of (zip ''ABCDEFGHIJKLMNOPQRSTUVWXYZ'' ''abcdefghijklmnopqrstuvwxyz'') c")
  case None
  then show ?thesis by (simp only: lower_char_def option.case)
next
  case (Some l)
  then have "(c, l) \<in> set (zip ''ABCDEFGHIJKLMNOPQRSTUVWXYZ'' ''abcdefghijklmnopqrstuvwxyz'')"
    by (rule map_of_SomeD)
  then have cu: "c \<in> set ''ABCDEFGHIJKLMNOPQRSTUVWXYZ''"
    and ll: "l \<in> set ''abcdefghijklmnopqrstuvwxyz''"
    by (rule set_zip_leftD, rule set_zip_rightD)
  have "\<not> is_digit c" using cu by (rule upper_not_digit)
  moreover have "\<not> is_digit l" using ll by (rule lower_not_digit)
  moreover have "lower_char c = l" using Some by (simp only: lower_char_def option.case)
  ultimately show ?thesis by simp
qed

lemma no_digit_lower_strip:
  assumes "\<forall>c \<in> set s. \<not> is_digit c"
  shows "\<forall>c \<in> set (str_strip (str_lower s)). \<not> is_digit c"
proof
  fix c assume "c \<in> set (str_strip (str_lower s))"
  then have "c \<in> set (str_lower s)"
    by (auto simp: str_strip_def dest!: set_dropWhileD)
  then obtain d where "d \<in> set s" "c = lower_char d" by (auto simp: str_lower_def)
  with assms show "\<not> is_digit c" by (simp add: is_digit_lower_char)
qed

lemma numeric_match_aux:
  "((if fd = [] then None
     else (let int_part = takeWhile is_digit fd; after = dropWhile is_digit fd
           in case after of
                c # rest \<Rightarrow> (if c = CHR ''.'' then Some (int_part, takeWhile is_digit rest)
                              else Some (int_part, []))
              | [] \<Rightarrow> Some (int_part, []))) = None) = (fd = [])"
  by (simp add: Let_def split: list.split)

lemma numeric_match_None: "numeric_match t = None \<longleftrightarrow> (\<forall>c \<in> set t. \<not> is_digit c)"
proof -
  have "numeric_match t = None \<longleftrightarrow> dropWhile (\<lambda>c. \<not> is_digit c) t = []"
    unfolding numeric_match_def Let_def
    using numeric_match_aux[of "dropWhile (\<lambda>c. \<not> is_digit c) t", unfolded Let_def] .
  then show ?thesis by (simp add: dropWhile_eq_Nil_conv)
qed

lemma numeric_match_eq:
  assumes "dropWhile (\<lambda>c. \<not> is_digit c) s = fd" "fd \<noteq> []"
    and "takeWhile is_digit fd = ip" "dropWhile is_digit fd = after"
  shows "numeric_match s =
     (case after of
        c # r \<Rightarrow> (if c = CHR ''.'' then Some (ip, takeWhile is_digit r) else Some (ip, []))
      | [] \<Rightarrow> Some (ip, []))"
  using assms by (simp add: numeric_match_def Let_def)

lemma takeWhile_digits:
  assumes "\<forall>c \<in> set ds. is_digit c" "\<forall>c r. rest = c # r \<longrightarrow> \<not> is_digit c"
  shows "takeWhile is_digit (ds @ rest) = ds" "dropWhile is_digit (ds @ rest) = rest"
proof -
  have t1: "takeWhile is_digit rest = []"
    using assms(2) by (cases rest) simp_all
  have t2: "dropWhile is_digit rest = rest"
    using assms(2) by (cases rest) simp_all
  note t = t1 t2
  from assms(1) show "takeWhile is_digit (ds @ rest) = ds" "dropWhile is_digit (ds @ rest) = rest"
    by (simp_all add: t)
qed

lemma dropWhile_leading_digit:
  assumes "ds \<noteq> []" "\<forall>c \<in> set ds. is_digit c"
  shows "dropWhile (\<lambda>c. \<not> is_digit c) (ds @ rest) = ds @ rest"
  using assms by (cases ds) simp_all

lemma numeric_match_leading_int:
  assumes "ds \<noteq> []" "\<forall>c \<in> set ds. is_digit c"
    and "\<forall>c r. rest = c # r \<longrightarrow> \<not> is_digit c \<and> c \<noteq> CHR ''.''"
  shows "numeric_match (ds @ rest) = Some (ds, [])"
proof -
  from assms(3) have r: "\<forall>c r. rest = c # r \<longrightarrow> \<not> is_digit c" by blast
  have ne: "ds @ rest \<noteq> []" using assms(1) by simp
  from numeric_match_eq[OF dropWhile_leading_digit[OF assms(1,2)] ne takeWhile_digits[OF assms(2) r]]
  have "numeric_match (ds @ rest) =
     (case rest of
        c # r \<Rightarrow> (if c = CHR ''.'' then Some (ds, takeWhile is_digit r) else Some (ds, []))
      | [] \<Rightarrow> Some (ds, []))" .
  with assms(3) show ?thesis by (cases rest) simp_all
qed

lemma numeric_match_leading_decimal:
  assumes "ds \<noteq> []" "\<forall>c \<in> set ds. is_digit c" "\<forall>c \<in> set fs. is_digit c"
    and "\<forall>c r. rest = c # r \<longrightarrow> \<not> is_digit c"
  shows "numeric_match (ds @ CHR ''.'' # fs @ rest) = Some (ds, fs)"
proof -
  have nd: "\<forall>c r. CHR ''.'' # fs @ rest = c # r \<longrightarrow> \<not> is_digit c" by (simp add: is_digit_def)
  have ne: "ds @ CHR ''.'' # fs @ rest \<noteq> []" by simp
  from numeric_match_eq[OF dropWhile_leading_digit[OF assms(1,2)] ne takeWhile_digits[OF assms(2) nd]]
  have "numeric_match (ds @ CHR ''.'' # fs @ rest) = Some (ds, takeWhile is_digit (fs @ rest))"
    by simp
  with takeWhile_digits(1)[OF assms(3,4)] show ?thesis by simp
qed

text \<open>
  Claim C7. The five examples of the specification; a text without a digit gives 0;
  any other text gives the float of the first numeric token times the multiplier of the
  specification; and the token of a text that starts with digits is that run of digits,
  with the digits after a point as its fraction.
\<close>

theorem convert_indian_currency_examples_and_rule:
  "convert_indian_currency_to_number (PStr ''80 lakhs'') = PFloat 8000000 \<and>
   convert_indian_currency_to_number (PStr ''1.5 crores'') = PFloat 15000000 \<and>
   convert_indian_currency_to_number (PStr ''50k'') = PFloat 50000 \<and>
   convert_indian_currency_to_number (PStr ''200'') = PFloat 200 \<and>
   convert_indian_currency_to_number (PStr ''N/A'') = PInt 0 \<and>
   ((\<forall>c \<in> set s. \<not> is_digit c) \<longrightarrow> convert_indian_currency_to_number (PStr s) = PInt 0) \<and>
   convert_indian_currency_to_number (PStr s) =
     (case numeric_match (str_strip (str_lower s)) of
        None \<Rightarrow> PInt 0
      | Some m \<Rightarrow> PFloat (float_of_match m * spec_multiplier (str_strip (str_lower s)))) \<and>
   (ds \<noteq> [] \<and> (\<forall>c \<in> set ds. is_digit c) \<and>
    (\<forall>c r. rest = c # r \<longrightarrow> \<not> is_digit c \<and> c \<noteq> CHR ''.'') \<longrightarrow>
      numeric_match (ds @ rest) = Some (ds, []) \<and>
      float_of_match (ds, []) = real (digits_value ds)) \<and>
   (ds \<noteq> [] \<and> (\<forall>c \<in> set ds. is_digit c) \<and> (\<forall>c \<in> set fs. is_digit c) \<and>
    (\<forall>c r. rest = c # r \<longrightarrow> \<not> is_digit c) \<longrightarrow>
      numeric_match (ds @ CHR ''.'' # fs @ rest) = Some (ds, fs) \<and>
      float_of_match (ds, fs) = real (digits_value ds) + real (digits_value fs) / 10 ^ length fs)"
proof -
  have e1: "convert_indian_currency_to_number (PStr ''80 lakhs'') = PFloat 8000000"
    by (simp add: str_strip_def str_lower_def lower_char_def is_space_def is_digit_def
          numeric_match_def float_of_match_def digits_value_def digit_value_def)
  have e2: "convert_indian_currency_to_number (PStr ''1.5 crores'') = PFloat 15000000"
    by (simp add: str_strip_def str_lower_def lower_char_def is_space_def is_digit_def
          numeric_match_def float_of_match_def digits_value_def digit_value_def)
  have e3: "convert_indian_currency_to_number (PStr ''50k'') = PFloat 50000"
    by (simp add: str_strip_def str_lower_def lower_char_def is_space_def is_digit_def
          numeric_match_def float_of_match_def digits_value_def digit_value_def)
  have e4: "convert_indian_currency_to_number (PStr ''200'') = PFloat 200"
    by (simp add: str_strip_def str_lower_def lower_char_def is_space_def is_digit_def
          numeric_match_def float_of_match_def digits_value_def digit_value_def)
  have e5: "convert_indian_currency_to_number (PStr ''N/A'') = PInt 0"
    by (simp add: str_strip_def str_lower_def lower_char_def is_space_def is_digit_def
          numeric_match_def float_of_match_def digits_value_def digit_value_def)
  have g1: "(\<forall>c \<in> set s. \<not> is_digit c) \<longrightarrow> convert_indian_currency_to_number (PStr s) = PInt 0"
  proof
    assume "\<forall>c \<in> set s. \<not> is_digit c"
    from no_digit_lower_strip[OF this] have "numeric_match (str_strip (str_lower s)) = None"
      by (simp add: numeric_match_None)
    then show "convert_indian_currency_to_number (PStr s) = PInt 0" by simp
  qed
  have g2: "convert_indian_currency_to_number (PStr s) =
     (case numeric_match (str_strip (str_lower s)) of
        None \<Rightarrow> PInt 0
      | Some m \<Rightarrow> PFloat (float_of_match m * spec_multiplier (str_strip (str_lower s))))"
    by (simp add: spec_multiplier_def Let_def split: option.splits)
  have g3: "ds \<noteq> [] \<and> (\<forall>c \<in> set ds. is_digit c) \<and>
    (\<forall>c r. rest = c # r \<longrightarrow> \<not> is_digit c \<and> c \<noteq> CHR ''.'') \<longrightarrow>
      numeric_match (ds @ rest) = Some (ds, []) \<and>
      float_of_match (ds, []) = real (digits_value ds)"
    using numeric_match_leading_int[of ds rest] by (simp add: float_of_match_def digits_value_def)
  have g4: "ds \<noteq> [] \<and> (\<forall>c \<in> set ds. is_digit c) \<and> (\<forall>c \<in> set fs. is_digit c) \<and>
    (\<forall>c r. rest = c # r \<longrightarrow> \<not> is_digit c) \<longrightarrow>
      numeric_match (ds @ CHR ''.'' # fs @ rest) = Some (ds, fs) \<and>
      float_of_match (ds, fs) = real (digits_value ds) + real (digits_value fs) / 10 ^ length fs"
    using numeric_match_leading_decimal[of ds fs rest] by (simp add: float_of_match_def)
  show ?thesis by (intro conjI e1 e2 e3 e4 e5 g1 g2 g3 g4)
qed


theorem convert_indian_currency_examples_and_rule_witness:
  "convert_indian_currency_to_number (PStr ''two lakh'') = PInt 0 \<and>
   numeric_match ''80 lakhs'' = Some (''80'', []) \<and>
   float_of_match (''80'', []) = 80 \<and>
   numeric_match ''1.5 crores'' = Some (''1'', ''5'') \<and>
   float_of_match (''1'', ''5'') = 3 / 2"
  using
    convert_indian_currency_examples_and_rule
      [where s = "''two lakh''" and ds = "''80''" and rest = "'' lakhs''" and fs = "[]"]
    convert_indian_currency_examples_and_rule
      [where s = "''two lakh''" and ds = "''1''" and rest = "'' crores''" and fs = "''5''"]
  by (simp add: is_digit_def digits_value_def digit_value_def)

section \<open>Properties of the conversation engine\<close>

lemma intent_constants_in_set:
  "Intent_INTERESTED \<in> set all_intents" "Intent_NEEDS_MORE_INFO \<in> set all_intents"
  "Intent_OBJECTION \<in> set all_intents" "Intent_NOT_INTERESTED \<in> set all_intents"
  "Intent_ASKING_QUESTION \<in> set all_intents" "Intent_FOLLOW_UP_LATER \<in> set all_intents"
  by (simp_all add: all_intents_def)

lemma normalize_intent_in_set: "normalize_intent t \<in> set all_intents"
  unfolding normalize_intent_def
  by (simp only: intent_constants_in_set split: if_split) simp

lemma detect_intent_in_set: "fst (detect_intent message conversation_history call) \<in> set all_intents"
  by (simp add: detect_intent_def Let_def normalize_intent_in_set intent_constants_in_set
      split: sum.split list.split option.split)

lemma generate_response_intent:
  "map_of (generate_response json_loads message profile conversation_history
             intent_call extraction_call reply_call) ''intent''
   = Some (PStr (fst (detect_intent message conversation_history intent_call)))"
  by (simp add: generate_response_def Let_def split: sum.split)


text \<open>
  Claim C10. \<open>detect_intent\<close> returns one of the six intents for every outcome of the
  classification call: the normalization maps every string into the set, an exception
  gives \<open>needs_more_info\<close>, and so does a string that is not an intent name and
  contains none of the key words. Hence the intent that \<open>generate_response\<close> looks up
  in the transition table and returns is one of the six.
\<close>

theorem detect_intent_always_defined:
  "fst (detect_intent message conversation_history call) \<in> set all_intents \<and>
   normalize_intent t \<in> set all_intents \<and>
   fst (detect_intent message conversation_history (Inl e)) = Intent_NEEDS_MORE_INFO \<and>
   (t \<notin> set all_intents \<and> \<not> str_contains ''interest'' t \<and> \<not> str_contains ''more info'' t \<and>
    \<not> str_contains ''information'' t \<and> \<not> str_contains ''object'' t \<and>
    \<not> str_contains ''concern'' t \<and>
    \<not> (str_contains ''not'' t \<and> str_contains ''want'' t) \<and>
    \<not> str_contains ''question'' t \<and> \<not> str_contains ''ask'' t \<and>
    \<not> str_contains ''follow'' t \<and> \<not> str_contains ''later'' t
      \<longrightarrow> normalize_intent t = Intent_NEEDS_MORE_INFO) \<and>
   (\<exists>i \<in> set all_intents.
      map_of (generate_response json_loads message profile conversation_history
                call extraction_call reply_call) ''intent'' = Some (PStr i))"
proof -
  have a: "fst (detect_intent message conversation_history call) \<in> set all_intents"
    by (rule detect_intent_in_set)
  have b: "normalize_intent t \<in> set all_intents"
    by (rule normalize_intent_in_set)
  have c: "fst (detect_intent message conversation_history (Inl e)) = Intent_NEEDS_MORE_INFO"
    by (simp add: detect_intent_def)
  have d: "t \<notin> set all_intents \<and> \<not> str_contains ''interest'' t \<and> \<not> str_contains ''more info'' t \<and>
    \<not> str_contains ''information'' t \<and> \<not> str_contains ''object'' t \<and>
    \<not> str_contains ''concern'' t \<and>
    \<not> (str_contains ''not'' t \<and> str_contains ''want'' t) \<and>
    \<not> str_contains ''question'' t \<and> \<not> str_contains ''ask'' t \<and>
    \<not> str_contains ''follow'' t \<and> \<not> str_contains ''later'' t
      \<longrightarrow> normalize_intent t = Intent_NEEDS_MORE_INFO"
    unfolding normalize_intent_def by (simp only: if_False simp_thms split: if_split) blast
  have e: "\<exists>i \<in> set all_intents.
      map_of (generate_response json_loads message profile conversation_history
                call extraction_call reply_call) ''intent'' = Some (PStr i)"
    using a generate_response_intent by blast
  show ?thesis by (intro conjI a b c d e)
qed

theorem detect_intent_always_defined_witness:
  "normalize_intent ''maybe'' = Intent_NEEDS_MORE_INFO"
  using detect_intent_always_defined [where t = "''maybe''"]
  by (simp add: all_intents_def)


text \<open>
  Claim C6. If the reply-generation call raises, the response has the static apology
  text, its state is the current state of the profile (\<open>initial\<close> when the profile has
  none), not the computed new state, and its analysis dict has \<open>fallback\<close> set to
  \<open>True\<close>.
\<close>

theorem generation_failure_fallback:
  "map_of (generate_response json_loads message profile conversation_history
             intent_call extraction_call (Inl e)) ''text'' = Some (PStr apology_text) \<and>
   map_of (generate_response json_loads message profile conversation_history
             intent_call extraction_call (Inl e)) ''state''
     = Some (PStr (case profile_conversation_state profile of
                     None \<Rightarrow> State_INITIAL
                   | Some s \<Rightarrow> s)) \<and>
   map_of (generate_response json_loads message profile conversation_history
             intent_call extraction_call (Inl e)) ''analysis''
     = Some (PDict [(''error'', PStr (exc_str e)), (''fallback'', PBool True)]) \<and>
   map_of [(''error'', PStr (exc_str e)), (''fallback'', PBool True)] ''fallback''
     = Some (PBool True)"
  by (simp add: generate_response_def Let_def)

text \<open>
  An instance where the computed state differs from the current one: in state
  \<open>qualifying\<close> the answer "Interested" leads to \<open>property_details\<close>, and the fallback
  response keeps \<open>qualifying\<close>.
\<close>

lemma generation_failure_keeps_state_example:
  "update_state State_QUALIFYING
     (fst (detect_intent ''yes'' [] (Inr [\<lparr>content = Some ''Interested'', finish_reason = ''stop''\<rparr>])))
     = State_PROPERTY_DETAILS \<and>
   map_of (generate_response json_loads ''yes'' \<lparr>profile_conversation_state = Some State_QUALIFYING\<rparr> []
             (Inr [\<lparr>content = Some ''Interested'', finish_reason = ''stop''\<rparr>])
             (Inl (OtherException ''timeout'')) (Inl (OtherException ''timeout''))) ''state''
     = Some (PStr State_QUALIFYING)"
  by (simp add: generate_response_def Let_def detect_intent_def normalize_intent_def all_intents_def
        str_lower_def str_strip_def lower_char_def is_space_def update_state_def state_transitions_def)

section \<open>Properties of two handlers on one customer row\<close>










end
